theory Spec2Isabelle
  imports Complex_Main "HOL-Library.Finite_Map"
begin

unbundle bit_operations_syntax

section \<open>The duplicate-message filter of \<^verbatim>\<open>src/bot/filters.py\<close>\<close>

text \<open>
  The class \<^verbatim>\<open>DuplicateMessageFilter\<close> keeps, per user, a bounded deque of
  \<^verbatim>\<open>(timestamp, message_hash, text)\<close> tuples and, for all users together, one set of
  message hashes. The model passes the object's state explicitly; every method takes the
  state and returns what the method returns together with the state it leaves behind.

  Conventions of the embedding:
  \<^item> a Python \<^verbatim>\<open>str\<close> is the list of its Unicode code points (\<open>ustr\<close>);
  \<^item> what the code takes from the Python runtime (the Unicode tables behind
    \<^verbatim>\<open>str.lower\<close>, \<^verbatim>\<open>str.isspace\<close> and the regular expression classes
    \<^verbatim>\<open>\w\<close> and \<^verbatim>\<open>\s\<close>, and \<^verbatim>\<open>hashlib.md5\<close>) is a parameter \<open>R\<close> of
    every function that uses it;
  \<^item> \<^verbatim>\<open>time.time()\<close> is a parameter \<open>now\<close> of the call that reads it;
  \<^item> timestamps, the time window, the similarity score and its threshold are Python
    floats; they are modelled as exact reals. The score is a quotient of two small
    naturals and the threshold a decimal literal, and correctly rounded division is
    monotone, so the comparison \<^verbatim>\<open>similarity >= threshold\<close> on floats agrees with the
    exact one unless the two differ by less than one unit in the last place;
  \<^item> an exception is the value \<open>Inl e\<close> of the result, returned with the state as the
    method left it when it raised.
\<close>

subsection \<open>Strings and the runtime\<close>

type_synonym ustr = "nat list"

record pyrt =
  str_lower :: "ustr \<Rightarrow> ustr"
  isspace :: "nat \<Rightarrow> bool"
  isword :: "nat \<Rightarrow> bool"
  md5_hexdigest :: "ustr \<Rightarrow> string"

datatype py_error = ValueError | AttributeError | TypeError

text \<open>\<^verbatim>\<open>s.strip()\<close>: whitespace removed at both ends.\<close>

definition py_strip :: "(nat \<Rightarrow> bool) \<Rightarrow> ustr \<Rightarrow> ustr" where
  "py_strip sp s = rev (dropWhile sp (rev (dropWhile sp s)))"

text \<open>
  \<^verbatim>\<open>s.split()\<close> with no separator: the maximal runs of non-whitespace, in order.
  The second argument is the word being read.
\<close>

fun py_split_from :: "(nat \<Rightarrow> bool) \<Rightarrow> ustr \<Rightarrow> ustr \<Rightarrow> ustr list" where
  "py_split_from sp w [] = (if w = [] then [] else [w])"
| "py_split_from sp w (c # cs) =
     (if sp c then (if w = [] then py_split_from sp [] cs else w # py_split_from sp [] cs)
      else py_split_from sp (w @ [c]) cs)"

definition py_split :: "(nat \<Rightarrow> bool) \<Rightarrow> ustr \<Rightarrow> ustr list" where
  "py_split sp s = py_split_from sp [] s"

text \<open>\<^verbatim>\<open>' '.join(ws)\<close>; 32 is the code point of the space.\<close>

fun py_join_space :: "ustr list \<Rightarrow> ustr" where
  "py_join_space [] = []"
| "py_join_space [w] = w"
| "py_join_space (w # ws) = w @ 32 # py_join_space ws"

text \<open>\<^verbatim>\<open>re.sub(r'[^\w\s]', '', s)\<close>: every character that is neither a word character nor
  whitespace is deleted.\<close>

definition re_sub_punct :: "pyrt \<Rightarrow> ustr \<Rightarrow> ustr" where
  "re_sub_punct R s = filter (\<lambda>c. isword R c \<or> isspace R c) s"

text \<open>\<^verbatim>\<open>_normalize_text\<close>, lines 46 to 69, in the order of the source: lower and strip,
  then split and join, then the substitution.\<close>

definition normalize_text :: "pyrt \<Rightarrow> ustr \<Rightarrow> ustr" where
  "normalize_text R text =
     (if text = [] then []
      else let normalized = py_strip (isspace R) (str_lower R text);
               normalized = py_join_space (py_split (isspace R) normalized);
               normalized = re_sub_punct R normalized
           in normalized)"

text \<open>\<^verbatim>\<open>_calculate_similarity\<close>, lines 71 to 103: the Jaccard coefficient of the two word
  sets.\<close>

definition calculate_similarity :: "pyrt \<Rightarrow> ustr \<Rightarrow> ustr \<Rightarrow> real" where
  "calculate_similarity R text1 text2 =
     (if text1 = [] \<or> text2 = [] then 0
      else let norm1 = normalize_text R text1;
               norm2 = normalize_text R text2
           in if norm1 = norm2 then 1
              else let words1 = set (py_split (isspace R) norm1);
                       words2 = set (py_split (isspace R) norm2)
                   in if words1 = {} \<or> words2 = {} then 0
                      else let intersection = card (words1 \<inter> words2);
                               union = card (words1 \<union> words2)
                           in if union > 0 then real intersection / real union else 0)"

subsection \<open>The filter's state\<close>

record entry =
  timestamp :: real
  content_hash :: string
  raw_text :: ustr

record config =
  time_window :: real
  max_messages_per_user :: int
  similarity_threshold :: real

record filter_state =
  user_messages :: "(int, entry list) fmap"
  message_hashes :: "string set"
  blocked_count :: nat
  total_processed :: nat

text \<open>\<^verbatim>\<open>__init__\<close>, lines 29 to 41.\<close>

definition init_state :: filter_state where
  "init_state =
     \<lparr>user_messages = fmempty, message_hashes = {}, blocked_count = 0, total_processed = 0\<rparr>"

text \<open>
  \<^verbatim>\<open>self.user_messages[user_id]\<close> on the \<^verbatim>\<open>defaultdict\<close> of line 34: a key that is
  missing is inserted with a new \<^verbatim>\<open>deque(maxlen=max_messages_per_user)\<close>, whose
  constructor raises \<^verbatim>\<open>ValueError\<close> for a negative bound. The result is the deque and
  the dictionary after the access.
\<close>

definition user_deque ::
  "config \<Rightarrow> int \<Rightarrow> (int, entry list) fmap \<Rightarrow> py_error + entry list \<times> (int, entry list) fmap"
where
  "user_deque cfg user_id um =
     (case fmlookup um user_id of
        Some q \<Rightarrow> Inr (q, um)
      | None \<Rightarrow>
          if max_messages_per_user cfg < 0 then Inl ValueError
          else Inr ([], fmupd user_id [] um))"

text \<open>\<^verbatim>\<open>deque.append\<close> on a bounded deque: the item is added on the right and, when the
  deque is then longer than its bound, the leftmost item is dropped.\<close>

definition deque_append :: "int \<Rightarrow> entry list \<Rightarrow> entry \<Rightarrow> entry list" where
  "deque_append maxlen q e = (let q' = q @ [e] in if maxlen < int (length q') then tl q' else q')"

text \<open>The loop of \<^verbatim>\<open>_cleanup_old_messages\<close>, lines 116 to 118, on the deque and the
  hash set.\<close>

fun popleft_old :: "real \<Rightarrow> real \<Rightarrow> entry list \<Rightarrow> string set \<Rightarrow> entry list \<times> string set" where
  "popleft_old tw current_time [] hs = ([], hs)"
| "popleft_old tw current_time (e # q) hs =
     (if current_time - timestamp e > tw
      then popleft_old tw current_time q (hs - {content_hash e})
      else (e # q, hs))"

definition cleanup_old_messages ::
  "config \<Rightarrow> int \<Rightarrow> real \<Rightarrow> filter_state \<Rightarrow> py_error + filter_state"
where
  "cleanup_old_messages cfg user_id current_time s =
     (case user_deque cfg user_id (user_messages s) of
        Inl err \<Rightarrow> Inl err
      | Inr (q, um) \<Rightarrow>
          (case popleft_old (time_window cfg) current_time q (message_hashes s) of
             (q', hs') \<Rightarrow>
               Inr (s\<lparr>user_messages := fmupd user_id q' um, message_hashes := hs'\<rparr>)))"

text \<open>The loop of lines 157 to 164: whether some retained message of the user is at
  least as similar as the threshold; it stops at the first one.\<close>

fun any_similar :: "pyrt \<Rightarrow> real \<Rightarrow> ustr \<Rightarrow> entry list \<Rightarrow> bool" where
  "any_similar R thr message_text [] = False"
| "any_similar R thr message_text (e # q) =
     (if calculate_similarity R message_text (raw_text e) \<ge> thr then True
      else any_similar R thr message_text q)"

text \<open>\<^verbatim>\<open>is_duplicate\<close>, lines 121 to 171, for a \<^verbatim>\<open>str\<close> argument.\<close>

definition is_duplicate ::
  "pyrt \<Rightarrow> config \<Rightarrow> int \<Rightarrow> real \<Rightarrow> ustr \<Rightarrow> filter_state \<Rightarrow> (py_error + bool) \<times> filter_state"
where
  "is_duplicate R cfg user_id current_time message_text s =
     (let s1 = s\<lparr>total_processed := total_processed s + 1\<rparr> in
      case cleanup_old_messages cfg user_id current_time s1 of
        Inl err \<Rightarrow> (Inl err, s1)
      | Inr s2 \<Rightarrow>
          let normalized_text = normalize_text R message_text in
          if normalized_text = [] then (Inr False, s2)
          else
            let message_hash = md5_hexdigest R normalized_text in
            if message_hash \<in> message_hashes s2
            then (Inr True, s2\<lparr>blocked_count := blocked_count s2 + 1\<rparr>)
            else
              (case user_deque cfg user_id (user_messages s2) of
                 Inl err \<Rightarrow> (Inl err, s2)
               | Inr (q, um) \<Rightarrow>
                   if any_similar R (similarity_threshold cfg) message_text q
                   then (Inr True,
                         s2\<lparr>user_messages := um, blocked_count := blocked_count s2 + 1\<rparr>)
                   else
                     (Inr False,
                      s2\<lparr>user_messages :=
                            fmupd user_id
                              (deque_append (max_messages_per_user cfg) q
                                 \<lparr>timestamp = current_time, content_hash = message_hash,
                                  raw_text = message_text\<rparr>)
                              um,
                          message_hashes := insert message_hash (message_hashes s2)\<rparr>)))"

text \<open>
  The same method called with an argument of another type, which Python does not
  prevent. The values modelled are \<^verbatim>\<open>None\<close>, \<^verbatim>\<open>str\<close>, \<^verbatim>\<open>bytes\<close> (a \<^verbatim>\<open>bytearray\<close>
  behaves alike), \<^verbatim>\<open>int\<close>, \<^verbatim>\<open>bool\<close> and \<^verbatim>\<open>list\<close>; a value of any other type is outside
  the model.

  \<^verbatim>\<open>_normalize_text\<close> returns the empty string for a falsy argument (line 56) and calls
  \<^verbatim>\<open>text.lower().strip()\<close> on any other (line 60). \<^verbatim>\<open>None\<close>, an \<^verbatim>\<open>int\<close>, a \<^verbatim>\<open>bool\<close> and a
  \<^verbatim>\<open>list\<close> have no \<^verbatim>\<open>lower\<close>: \<^verbatim>\<open>AttributeError\<close>. \<^verbatim>\<open>bytes\<close> have \<^verbatim>\<open>lower\<close>, \<^verbatim>\<open>strip\<close> and
  \<^verbatim>\<open>split\<close>, on the six ASCII whitespace bytes and the 26 ASCII capitals; then
  \<^verbatim>\<open>' '.join\<close> (line 63) raises \<^verbatim>\<open>TypeError\<close> on the first item of a list of \<^verbatim>\<open>bytes\<close> and
  returns the empty \<^verbatim>\<open>str\<close> for the empty list, which the substitution of line 67 leaves
  empty.
\<close>

datatype pyval =
  PyNone | PyStr ustr | PyBytes "nat list" | PyInt int | PyBool bool | PyList "pyval list"

fun truthy :: "pyval \<Rightarrow> bool" where
  "truthy PyNone = False"
| "truthy (PyStr t) = (t \<noteq> [])"
| "truthy (PyBytes b) = (b \<noteq> [])"
| "truthy (PyInt n) = (n \<noteq> 0)"
| "truthy (PyBool b) = b"
| "truthy (PyList vs) = (vs \<noteq> [])"

definition bytes_isspace :: "nat \<Rightarrow> bool" where
  "bytes_isspace c = ((9 \<le> c \<and> c \<le> 13) \<or> c = 32)"

definition bytes_lower :: "nat \<Rightarrow> nat" where
  "bytes_lower c = (if 65 \<le> c \<and> c \<le> 90 then c + 32 else c)"

fun normalize_any :: "pyrt \<Rightarrow> pyval \<Rightarrow> py_error + ustr" where
  "normalize_any R (PyStr t) = Inr (normalize_text R t)"
| "normalize_any R (PyBytes b) =
     (if b = [] then Inr []
      else let normalized = py_strip bytes_isspace (map bytes_lower b)
           in if py_split bytes_isspace normalized = [] then Inr [] else Inl TypeError)"
| "normalize_any R v = (if truthy v then Inl AttributeError else Inr [])"

text \<open>
  \<^verbatim>\<open>is_duplicate\<close> for any of these values. Lines 132 to 139 run for every argument; a
  value that is not a \<^verbatim>\<open>str\<close> either raises in \<^verbatim>\<open>_normalize_text\<close> or is normalized to
  the empty string, for which line 143 returns \<^verbatim>\<open>False\<close>.
\<close>

fun is_duplicate_any ::
  "pyrt \<Rightarrow> config \<Rightarrow> int \<Rightarrow> real \<Rightarrow> pyval \<Rightarrow> filter_state \<Rightarrow> (py_error + bool) \<times> filter_state"
where
  "is_duplicate_any R cfg user_id current_time (PyStr t) s =
     is_duplicate R cfg user_id current_time t s"
| "is_duplicate_any R cfg user_id current_time v s =
     (let s1 = s\<lparr>total_processed := total_processed s + 1\<rparr> in
      case cleanup_old_messages cfg user_id current_time s1 of
        Inl err \<Rightarrow> (Inl err, s1)
      | Inr s2 \<Rightarrow>
          (case normalize_any R v of
             Inl err \<Rightarrow> (Inl err, s2)
           | Inr normalized_text \<Rightarrow> (Inr False, s2)))"

text \<open>\<^verbatim>\<open>get_stats\<close>, lines 173 to 185.\<close>

record stats =
  stat_total_processed :: nat
  stat_blocked_count :: nat
  stat_active_users :: nat
  stat_cached_messages :: nat

definition deque_len :: "(int, entry list) fmap \<Rightarrow> int \<Rightarrow> nat" where
  "deque_len um k = (case fmlookup um k of None \<Rightarrow> 0 | Some q \<Rightarrow> length q)"

definition get_stats :: "filter_state \<Rightarrow> stats" where
  "get_stats s =
     \<lparr>stat_total_processed = total_processed s,
      stat_blocked_count = blocked_count s,
      stat_active_users = card (fmdom' (user_messages s)),
      stat_cached_messages = sum (deque_len (user_messages s)) (fmdom' (user_messages s))\<rparr>"

text \<open>\<^verbatim>\<open>clear_user_cache\<close>, lines 187 to 201, and \<^verbatim>\<open>clear_all_cache\<close>, lines 203 to
  208.\<close>

definition clear_user_cache :: "int \<Rightarrow> filter_state \<Rightarrow> filter_state" where
  "clear_user_cache user_id s =
     (case fmlookup (user_messages s) user_id of
        None \<Rightarrow> s
      | Some q \<Rightarrow>
          s\<lparr>message_hashes := fold (\<lambda>e hs. hs - {content_hash e}) q (message_hashes s),
            user_messages := fmupd user_id [] (user_messages s)\<rparr>)"

definition clear_all_cache :: "filter_state \<Rightarrow> filter_state" where
  "clear_all_cache s =
     s\<lparr>user_messages := fmempty, message_hashes := {}, blocked_count := 0,
       total_processed := 0\<rparr>"

text \<open>
  \<^verbatim>\<open>get_user_recent_messages\<close>, lines 211 to 226. The slice \<^verbatim>\<open>xs[start:]\<close> of Python
  counts a negative \<open>start\<close> from the end and clips it to the list.
\<close>

definition py_slice_from :: "int \<Rightarrow> 'a list \<Rightarrow> 'a list" where
  "py_slice_from start xs =
     (let n = int (length xs);
          i = (if start < 0 then max (n + start) 0 else min start n)
      in drop (nat i) xs)"

definition get_user_recent_messages :: "int \<Rightarrow> int \<Rightarrow> filter_state \<Rightarrow> entry list" where
  "get_user_recent_messages user_id limit s =
     (case fmlookup (user_messages s) user_id of
        None \<Rightarrow> []
      | Some q \<Rightarrow> py_slice_from (- limit) q)"

subsection \<open>Sequences of calls and reachable states\<close>

text \<open>A sequence of \<^verbatim>\<open>is_duplicate\<close> calls, each with its user, the time it reads and its
  text: the results in order and the final state.\<close>

fun run_calls ::
  "pyrt \<Rightarrow> config \<Rightarrow> (int \<times> real \<times> ustr) list \<Rightarrow> filter_state \<Rightarrow> (py_error + bool) list \<times> filter_state"
where
  "run_calls R cfg [] s = ([], s)"
| "run_calls R cfg ((user_id, now, message_text) # cs) s =
     (case is_duplicate R cfg user_id now message_text s of
        (r, s') \<Rightarrow> (case run_calls R cfg cs s' of (rs, s'') \<Rightarrow> (r # rs, s'')))"

text \<open>The states a filter can be in: the state after \<^verbatim>\<open>__init__\<close>, and the state after
  any call of a method that changes it, with any arguments at any time.\<close>

inductive reachable :: "pyrt \<Rightarrow> config \<Rightarrow> filter_state \<Rightarrow> bool" for R cfg where
  reach_init: "reachable R cfg init_state"
| reach_is_duplicate:
    "reachable R cfg s \<Longrightarrow> reachable R cfg (snd (is_duplicate_any R cfg user_id now v s))"
| reach_clear_user: "reachable R cfg s \<Longrightarrow> reachable R cfg (clear_user_cache user_id s)"
| reach_clear_all: "reachable R cfg s \<Longrightarrow> reachable R cfg (clear_all_cache s)"

subsection \<open>Properties of a state\<close>

text \<open>The deque of a user, empty when the user has none, and the hashes carried by the
  retained entries of all users.\<close>

definition deque_of :: "(int, entry list) fmap \<Rightarrow> int \<Rightarrow> entry list" where
  "deque_of um k = (case fmlookup um k of None \<Rightarrow> [] | Some q \<Rightarrow> q)"

definition retained_hashes :: "filter_state \<Rightarrow> string set" where
  "retained_hashes s =
     (\<Union>k \<in> fmdom' (user_messages s). content_hash ` set (deque_of (user_messages s) k))"

text \<open>The number of users whose deque holds at least one entry.\<close>

definition nonempty_histories :: "filter_state \<Rightarrow> nat" where
  "nonempty_histories s =
     card {k \<in> fmdom' (user_messages s). deque_of (user_messages s) k \<noteq> []}"

definition empty_histories :: "filter_state \<Rightarrow> nat" where
  "empty_histories s =
     card {k \<in> fmdom' (user_messages s). deque_of (user_messages s) k = []}"

text \<open>Every retained entry's hash is in the hash set; within one deque the hashes are
  pairwise different; the deques of two users share no hash.\<close>

definition hashes_indexed :: "filter_state \<Rightarrow> bool" where
  "hashes_indexed s =
     (\<forall>u q. fmlookup (user_messages s) u = Some q \<longrightarrow>
        (\<forall>e\<in>set q. content_hash e \<in> message_hashes s))"

definition hashes_distinct :: "filter_state \<Rightarrow> bool" where
  "hashes_distinct s =
     (\<forall>u q. fmlookup (user_messages s) u = Some q \<longrightarrow> distinct (map content_hash q))"

definition hashes_disjoint :: "filter_state \<Rightarrow> bool" where
  "hashes_disjoint s =
     (\<forall>u1 q1 u2 q2.
        u1 \<noteq> u2 \<and> fmlookup (user_messages s) u1 = Some q1 \<and>
        fmlookup (user_messages s) u2 = Some q2 \<longrightarrow>
        content_hash ` set q1 \<inter> content_hash ` set q2 = {})"

definition filter_inv :: "filter_state \<Rightarrow> bool" where
  "filter_inv s = (hashes_indexed s \<and> hashes_distinct s \<and> hashes_disjoint s)"

subsection \<open>A runtime to evaluate with\<close>

text \<open>
  \<^verbatim>\<open>hashlib.md5(s.encode('utf-8')).hexdigest()\<close>: the UTF-8 encoding of the code
  points and the MD5 digest of RFC 1321 on the bytes, printed as 32 hexadecimal digits.
  The text that is hashed is normalized, so it holds no surrogate and the encoding does
  not raise.
\<close>

definition utf8_encode_cp :: "nat \<Rightarrow> int list" where
  "utf8_encode_cp cp =
     (let c = int cp in
      if c < 128 then [c]
      else if c < 2048 then [192 + c div 64, 128 + c mod 64]
      else if c < 65536 then [224 + c div 4096, 128 + (c div 64) mod 64, 128 + c mod 64]
      else [240 + c div 262144, 128 + (c div 4096) mod 64, 128 + (c div 64) mod 64,
            128 + c mod 64])"

definition utf8_encode :: "ustr \<Rightarrow> int list" where
  "utf8_encode s = concat (map utf8_encode_cp s)"

text \<open>The 32-bit arithmetic of MD5 on integers, with the wrap-around written out.\<close>

definition u32 :: "int \<Rightarrow> int" where
  "u32 x = x mod 4294967296"

definition not32 :: "int \<Rightarrow> int" where
  "not32 x = 4294967295 - x"

definition rotl32 :: "nat \<Rightarrow> int \<Rightarrow> int" where
  "rotl32 n x = u32 (x * 2 ^ n) + x div 2 ^ (32 - n)"

definition md5_K :: "int list" where
  "md5_K =
     [0xd76aa478, 0xe8c7b756, 0x242070db, 0xc1bdceee, 0xf57c0faf, 0x4787c62a,
      0xa8304613, 0xfd469501, 0x698098d8, 0x8b44f7af, 0xffff5bb1, 0x895cd7be,
      0x6b901122, 0xfd987193, 0xa679438e, 0x49b40821, 0xf61e2562, 0xc040b340,
      0x265e5a51, 0xe9b6c7aa, 0xd62f105d, 0x02441453, 0xd8a1e681, 0xe7d3fbc8,
      0x21e1cde6, 0xc33707d6, 0xf4d50d87, 0x455a14ed, 0xa9e3e905, 0xfcefa3f8,
      0x676f02d9, 0x8d2a4c8a, 0xfffa3942, 0x8771f681, 0x6d9d6122, 0xfde5380c,
      0xa4beea44, 0x4bdecfa9, 0xf6bb4b60, 0xbebfbc70, 0x289b7ec6, 0xeaa127fa,
      0xd4ef3085, 0x04881d05, 0xd9d4d039, 0xe6db99e5, 0x1fa27cf8, 0xc4ac5665,
      0xf4292244, 0x432aff97, 0xab9423a7, 0xfc93a039, 0x655b59c3, 0x8f0ccc92,
      0xffeff47d, 0x85845dd1, 0x6fa87e4f, 0xfe2ce6e0, 0xa3014314, 0x4e0811a1,
      0xf7537e82, 0xbd3af235, 0x2ad7d2bb, 0xeb86d391]"

definition md5_S :: "nat list" where
  "md5_S =
     [7, 12, 17, 22, 7, 12, 17, 22, 7, 12, 17, 22, 7, 12, 17, 22,
      5, 9, 14, 20, 5, 9, 14, 20, 5, 9, 14, 20, 5, 9, 14, 20,
      4, 11, 16, 23, 4, 11, 16, 23, 4, 11, 16, 23, 4, 11, 16, 23,
      6, 10, 15, 21, 6, 10, 15, 21, 6, 10, 15, 21, 6, 10, 15, 21]"

definition md5_F :: "nat \<Rightarrow> int \<Rightarrow> int \<Rightarrow> int \<Rightarrow> int" where
  "md5_F i b c d =
     (if i < 16 then (b AND c) OR (not32 b AND d)
      else if i < 32 then (d AND b) OR (not32 d AND c)
      else if i < 48 then b XOR c XOR d
      else c XOR (b OR not32 d))"

definition md5_g :: "nat \<Rightarrow> nat" where
  "md5_g i =
     (if i < 16 then i
      else if i < 32 then (5 * i + 1) mod 16
      else if i < 48 then (3 * i + 5) mod 16
      else (7 * i) mod 16)"

type_synonym md5_state = "int \<times> int \<times> int \<times> int"

definition md5_step :: "int list \<Rightarrow> md5_state \<Rightarrow> nat \<Rightarrow> md5_state" where
  "md5_step M st i =
     (case st of (a, b, c, d) \<Rightarrow>
        (d,
         u32 (b + rotl32 (md5_S ! i) (u32 (md5_F i b c d + a + md5_K ! i + M ! md5_g i))),
         b, c))"

definition md5_block :: "md5_state \<Rightarrow> int list \<Rightarrow> md5_state" where
  "md5_block st M =
     (case st of (a0, b0, c0, d0) \<Rightarrow>
        (case foldl (md5_step M) st [0..<64] of
           (a, b, c, d) \<Rightarrow> (u32 (a0 + a), u32 (b0 + b), u32 (c0 + c), u32 (d0 + d))))"

fun md5_blocks :: "md5_state \<Rightarrow> int list \<Rightarrow> md5_state" where
  "md5_blocks st [] = st"
| "md5_blocks st (w # ws) = md5_blocks (md5_block st (take 16 (w # ws))) (drop 16 (w # ws))"

text \<open>The bytes of a number, least significant first, and back.\<close>

fun le_bytes :: "nat \<Rightarrow> int \<Rightarrow> int list" where
  "le_bytes 0 x = []"
| "le_bytes (Suc k) x = x mod 256 # le_bytes k (x div 256)"

fun le_words :: "int list \<Rightarrow> int list" where
  "le_words (b0 # b1 # b2 # b3 # bs) =
     (b0 + 256 * b1 + 65536 * b2 + 16777216 * b3) # le_words bs"
| "le_words bs = []"

definition md5_pad :: "int list \<Rightarrow> int list" where
  "md5_pad bs =
     bs @ [128] @ replicate ((119 - length bs mod 64) mod 64) 0
        @ le_bytes 8 ((8 * int (length bs)) mod 18446744073709551616)"

definition md5_digest :: "int list \<Rightarrow> int list" where
  "md5_digest bs =
     (case md5_blocks (0x67452301, 0xefcdab89, 0x98badcfe, 0x10325476) (le_words (md5_pad bs)) of
        (a, b, c, d) \<Rightarrow> le_bytes 4 a @ le_bytes 4 b @ le_bytes 4 c @ le_bytes 4 d)"

definition hex_byte :: "int \<Rightarrow> string" where
  "hex_byte b =
     [''0123456789abcdef'' ! nat (b div 16), ''0123456789abcdef'' ! nat (b mod 16)]"

definition md5_hexdigest_utf8 :: "ustr \<Rightarrow> string" where
  "md5_hexdigest_utf8 s = concat (map hex_byte (md5_digest (utf8_encode s)))"

text \<open>
  The Unicode tables of CPython, restricted to the code points the scenarios use: ASCII
  and the Cyrillic letters U+0400 to U+045F. \<^verbatim>\<open>str.isspace\<close> and \<^verbatim>\<open>\s\<close> are the full
  table (29 code points). On other code points \<open>lower_cp\<close> and \<open>py_isword\<close> are not
  CPython's, and no evaluation below reaches them.
\<close>

definition lower_cp :: "nat \<Rightarrow> nat" where
  "lower_cp c =
     (if 65 \<le> c \<and> c \<le> 90 then c + 32
      else if 1040 \<le> c \<and> c \<le> 1071 then c + 32
      else if 1024 \<le> c \<and> c \<le> 1039 then c + 80
      else c)"

definition py_isspace :: "nat \<Rightarrow> bool" where
  "py_isspace c =
     ((9 \<le> c \<and> c \<le> 13) \<or> (28 \<le> c \<and> c \<le> 32) \<or> c = 133 \<or> c = 160 \<or> c = 5760 \<or>
      (8192 \<le> c \<and> c \<le> 8202) \<or> c = 8232 \<or> c = 8233 \<or> c = 8239 \<or> c = 8287 \<or> c = 12288)"

definition py_isword :: "nat \<Rightarrow> bool" where
  "py_isword c =
     ((48 \<le> c \<and> c \<le> 57) \<or> (65 \<le> c \<and> c \<le> 90) \<or> c = 95 \<or> (97 \<le> c \<and> c \<le> 122) \<or>
      (1024 \<le> c \<and> c \<le> 1119))"

definition cpython_basic :: pyrt where
  "cpython_basic =
     \<lparr>str_lower = map lower_cp, isspace = py_isspace, isword = py_isword,
      md5_hexdigest = md5_hexdigest_utf8\<rparr>"

subsection \<open>The inputs of the scenarios\<close>

text \<open>The configuration of the repository's test script: a window of 60 seconds, five
  messages per user, threshold 0.8.\<close>

definition cfg_test :: config where
  "cfg_test = \<lparr>time_window = 60, max_messages_per_user = 5, similarity_threshold = 4 / 5\<rparr>"

text \<open>The two Russian messages of the test script, as code points: the greeting
  (U+041F U+0440 U+0438 U+0432 U+0435 U+0442 and an exclamation mark) and the question
  (U+041A U+0430 U+043A, a space, U+0434 U+0435 U+043B U+0430 and a question mark).\<close>

definition privet :: ustr where
  "privet = [1055, 1088, 1080, 1074, 1077, 1090, 33]"

definition kak_dela :: ustr where
  "kak_dela = [1050, 1072, 1082, 32, 1076, 1077, 1083, 1072, 63]"

text \<open>Six one-letter messages \<^verbatim>\<open>a\<close> to \<^verbatim>\<open>f\<close> of user 1, one per second, and the
  same six sent again.\<close>

definition six_calls :: "(int \<times> real \<times> ustr) list" where
  "six_calls = [(1, 1, [97]), (1, 2, [98]), (1, 3, [99]), (1, 4, [100]), (1, 5, [101]),
     (1, 6, [102])]"

definition repeat_calls :: "(int \<times> real \<times> ustr) list" where
  "repeat_calls = [(1, 7, [97]), (1, 8, [98]), (1, 9, [99]), (1, 10, [100]), (1, 11, [101]),
     (1, 12, [102])]"

text \<open>The texts \<^verbatim>\<open>a , b\<close> and \<^verbatim>\<open>a b\<close>, which differ in a comma that stands alone, and
  \<^verbatim>\<open>! a\<close>.\<close>

definition a_comma_b :: ustr where
  "a_comma_b = [97, 32, 44, 32, 98]"

definition a_b :: ustr where
  "a_b = [97, 32, 98]"

definition bang_a :: ustr where
  "bang_a = [33, 32, 97]"

text \<open>Word sets at the threshold and just below it: \<^verbatim>\<open>a b c d\<close> against
  \<^verbatim>\<open>a b c d e\<close> (four common words of five), and the numbers \<^verbatim>\<open>00\<close> to \<^verbatim>\<open>78\<close>
  against \<^verbatim>\<open>00\<close> to \<^verbatim>\<open>99\<close> (79 common words of 100).\<close>

definition words_abcd :: ustr where
  "words_abcd = [97, 32, 98, 32, 99, 32, 100]"

definition words_abcde :: ustr where
  "words_abcde = [97, 32, 98, 32, 99, 32, 100, 32, 101]"

definition words_00_78 :: ustr where
  "words_00_78 =
     [48, 48, 32, 48, 49, 32, 48, 50, 32, 48, 51, 32, 48, 52, 32, 48, 53, 32, 48, 54, 32,
     48, 55, 32, 48, 56, 32, 48, 57, 32, 49, 48, 32, 49, 49, 32, 49, 50, 32, 49, 51, 32,
     49, 52, 32, 49, 53, 32, 49, 54, 32, 49, 55, 32, 49, 56, 32, 49, 57, 32, 50, 48, 32,
     50, 49, 32, 50, 50, 32, 50, 51, 32, 50, 52, 32, 50, 53, 32, 50, 54, 32, 50, 55, 32,
     50, 56, 32, 50, 57, 32, 51, 48, 32, 51, 49, 32, 51, 50, 32, 51, 51, 32, 51, 52, 32,
     51, 53, 32, 51, 54, 32, 51, 55, 32, 51, 56, 32, 51, 57, 32, 52, 48, 32, 52, 49, 32,
     52, 50, 32, 52, 51, 32, 52, 52, 32, 52, 53, 32, 52, 54, 32, 52, 55, 32, 52, 56, 32,
     52, 57, 32, 53, 48, 32, 53, 49, 32, 53, 50, 32, 53, 51, 32, 53, 52, 32, 53, 53, 32,
     53, 54, 32, 53, 55, 32, 53, 56, 32, 53, 57, 32, 54, 48, 32, 54, 49, 32, 54, 50, 32,
     54, 51, 32, 54, 52, 32, 54, 53, 32, 54, 54, 32, 54, 55, 32, 54, 56, 32, 54, 57, 32,
     55, 48, 32, 55, 49, 32, 55, 50, 32, 55, 51, 32, 55, 52, 32, 55, 53, 32, 55, 54, 32,
     55, 55, 32, 55, 56]"

definition words_00_99 :: ustr where
  "words_00_99 =
     [48, 48, 32, 48, 49, 32, 48, 50, 32, 48, 51, 32, 48, 52, 32, 48, 53, 32, 48, 54, 32,
     48, 55, 32, 48, 56, 32, 48, 57, 32, 49, 48, 32, 49, 49, 32, 49, 50, 32, 49, 51, 32,
     49, 52, 32, 49, 53, 32, 49, 54, 32, 49, 55, 32, 49, 56, 32, 49, 57, 32, 50, 48, 32,
     50, 49, 32, 50, 50, 32, 50, 51, 32, 50, 52, 32, 50, 53, 32, 50, 54, 32, 50, 55, 32,
     50, 56, 32, 50, 57, 32, 51, 48, 32, 51, 49, 32, 51, 50, 32, 51, 51, 32, 51, 52, 32,
     51, 53, 32, 51, 54, 32, 51, 55, 32, 51, 56, 32, 51, 57, 32, 52, 48, 32, 52, 49, 32,
     52, 50, 32, 52, 51, 32, 52, 52, 32, 52, 53, 32, 52, 54, 32, 52, 55, 32, 52, 56, 32,
     52, 57, 32, 53, 48, 32, 53, 49, 32, 53, 50, 32, 53, 51, 32, 53, 52, 32, 53, 53, 32,
     53, 54, 32, 53, 55, 32, 53, 56, 32, 53, 57, 32, 54, 48, 32, 54, 49, 32, 54, 50, 32,
     54, 51, 32, 54, 52, 32, 54, 53, 32, 54, 54, 32, 54, 55, 32, 54, 56, 32, 54, 57, 32,
     55, 48, 32, 55, 49, 32, 55, 50, 32, 55, 51, 32, 55, 52, 32, 55, 53, 32, 55, 54, 32,
     55, 55, 32, 55, 56, 32, 55, 57, 32, 56, 48, 32, 56, 49, 32, 56, 50, 32, 56, 51, 32,
     56, 52, 32, 56, 53, 32, 56, 54, 32, 56, 55, 32, 56, 56, 32, 56, 57, 32, 57, 48, 32,
     57, 49, 32, 57, 50, 32, 57, 51, 32, 57, 52, 32, 57, 53, 32, 57, 54, 32, 57, 55, 32,
     57, 56, 32, 57, 57]"

section \<open>Properties\<close>

subsection \<open>Removing old messages\<close>

text \<open>
  The loop of \<^verbatim>\<open>_cleanup_old_messages\<close> removes a prefix of the deque and exactly the
  hashes of the entries it removes.
\<close>

lemma popleft_old_suffix:
  "popleft_old tw t q hs = (q', hs') \<Longrightarrow> \<exists>k. q' = drop k q \<and> hs' = hs - content_hash ` set (take k q)"
proof (induction q arbitrary: hs)
  case Nil
  then show ?case by simp
next
  case (Cons e q)
  show ?case
  proof (cases "t - timestamp e > tw")
    case True
    with Cons.prems have "popleft_old tw t q (hs - {content_hash e}) = (q', hs')" by simp
    from Cons.IH[OF this] obtain k where
      k: "q' = drop k q" "hs' = hs - {content_hash e} - content_hash ` set (take k q)" by blast
    have "q' = drop (Suc k) (e # q)" using k by simp
    moreover have "hs' = hs - content_hash ` set (take (Suc k) (e # q))" using k by auto
    ultimately show ?thesis by blast
  next
    case False
    with Cons.prems have "q' = drop 0 (e # q) \<and> hs' = hs - content_hash ` set (take 0 (e # q))"
      by simp
    then show ?thesis by blast
  qed
qed

lemma cleanup_old_messages_cases:
  assumes "cleanup_old_messages cfg u t s = Inr s2"
  obtains
    (fresh) "fmlookup (user_messages s) u = None" "0 \<le> max_messages_per_user cfg"
      "s2 = s\<lparr>user_messages := fmupd u [] (user_messages s)\<rparr>"
  | (known) q k where "fmlookup (user_messages s) u = Some q"
      "s2 = s\<lparr>user_messages := fmupd u (drop k q) (user_messages s),
               message_hashes := message_hashes s - content_hash ` set (take k q)\<rparr>"
proof (cases "fmlookup (user_messages s) u")
  case None
  with assms have "0 \<le> max_messages_per_user cfg"
    "s2 = s\<lparr>user_messages := fmupd u [] (user_messages s)\<rparr>"
    by (auto simp: cleanup_old_messages_def user_deque_def split: if_splits)
  with None show ?thesis by (rule fresh)
next
  case (Some q)
  obtain q' hs' where p: "popleft_old (time_window cfg) t q (message_hashes s) = (q', hs')"
    by (cases "popleft_old (time_window cfg) t q (message_hashes s)")
  from popleft_old_suffix[OF p] obtain k where
    "q' = drop k q" "hs' = message_hashes s - content_hash ` set (take k q)" by blast
  with assms Some p have
    "s2 = s\<lparr>user_messages := fmupd u (drop k q) (user_messages s),
            message_hashes := message_hashes s - content_hash ` set (take k q)\<rparr>"
    by (simp add: cleanup_old_messages_def user_deque_def)
  with Some show ?thesis by (rule known)
qed

lemma cleanup_old_messages_deque:
  assumes "cleanup_old_messages cfg u t s = Inr s2"
  shows "\<exists>q. fmlookup (user_messages s2) u = Some q"
  using assms by (cases rule: cleanup_old_messages_cases) auto

lemma cleanup_old_messages_total:
  assumes "0 \<le> max_messages_per_user cfg"
  shows "\<exists>s2. cleanup_old_messages cfg u t s = Inr s2"
  using assms
  by (auto simp: cleanup_old_messages_def user_deque_def split: option.splits prod.splits)

lemma cleanup_old_messages_shrinks:
  assumes "cleanup_old_messages cfg u t s = Inr s2"
  shows "message_hashes s2 \<subseteq> message_hashes s \<and>
     (\<forall>k. \<exists>n. deque_of (user_messages s2) k = drop n (deque_of (user_messages s) k))"
  using assms
proof (cases rule: cleanup_old_messages_cases)
  case fresh
  have "\<exists>n. deque_of (user_messages s2) k = drop n (deque_of (user_messages s) k)" for k
    using fresh by (intro exI[of _ 0]) (auto simp: deque_of_def)
  then show ?thesis using fresh by simp
next
  case (known q n)
  have "\<exists>m. deque_of (user_messages s2) k = drop m (deque_of (user_messages s) k)" for k
  proof (cases "k = u")
    case True
    then show ?thesis using known by (intro exI[of _ n]) (simp add: deque_of_def)
  next
    case False
    then show ?thesis using known by (intro exI[of _ 0]) (simp add: deque_of_def)
  qed
  then show ?thesis using known by auto
qed

lemma user_deque_known:
  "fmlookup um u = Some q \<Longrightarrow> user_deque cfg u um = Inr (q, um)"
  by (simp add: user_deque_def)

lemma fold_discard:
  "fold (\<lambda>e hs. hs - {content_hash e}) q hs = hs - content_hash ` set q"
  by (induction q arbitrary: hs) auto

subsection \<open>The hashes of the retained entries\<close>

text \<open>
  \<open>filter_inv\<close> holds after \<^verbatim>\<open>__init__\<close> and every method keeps it: an entry is
  appended only when its hash is not in the hash set, and a hash leaves the set only
  together with the one entry that carries it.
\<close>

lemma filter_inv_init: "filter_inv init_state"
  by (simp add: filter_inv_def hashes_indexed_def hashes_distinct_def hashes_disjoint_def init_state_def)

lemma filter_inv_counters:
  "filter_inv (s\<lparr>total_processed := n\<rparr>) = filter_inv s"
  "filter_inv (s\<lparr>blocked_count := n\<rparr>) = filter_inv s"
  by (simp_all add: filter_inv_def hashes_indexed_def hashes_distinct_def hashes_disjoint_def)

lemma filter_inv_new_deque:
  assumes "filter_inv s" "fmlookup (user_messages s) u = None"
  shows "filter_inv (s\<lparr>user_messages := fmupd u [] (user_messages s)\<rparr>)"
  using assms
  by (auto simp: filter_inv_def hashes_indexed_def hashes_distinct_def hashes_disjoint_def)

lemma filter_inv_drop:
  assumes "filter_inv s" "fmlookup (user_messages s) u = Some q"
  shows "filter_inv (s\<lparr>user_messages := fmupd u (drop k q) (user_messages s),
                       message_hashes := message_hashes s - content_hash ` set (take k q)\<rparr>)"
proof -
  let ?s' = "s\<lparr>user_messages := fmupd u (drop k q) (user_messages s),
                message_hashes := message_hashes s - content_hash ` set (take k q)\<rparr>"
  from assms have ix: "hashes_indexed s" and di: "hashes_distinct s" and dj: "hashes_disjoint s"
    by (simp_all add: filter_inv_def)
  have dq: "distinct (map content_hash q)" using di assms(2) by (auto simp: hashes_distinct_def)
  have split: "content_hash ` set (take k q) \<inter> content_hash ` set (drop k q) = {}"
  proof -
    have "distinct (map content_hash (take k q) @ map content_hash (drop k q))"
      using dq by (simp flip: map_append)
    then show ?thesis by auto
  qed
  have "hashes_indexed ?s'"
    unfolding hashes_indexed_def
  proof (intro allI impI ballI)
    fix v qv e
    assume l: "fmlookup (user_messages ?s') v = Some qv" and e: "e \<in> set qv"
    show "content_hash e \<in> message_hashes ?s'"
    proof (cases "v = u")
      case True
      with l have qv: "qv = drop k q" by simp
      then have "e \<in> set q" using e by (auto dest: in_set_dropD)
      then have "content_hash e \<in> message_hashes s"
        using ix assms(2) by (auto simp: hashes_indexed_def)
      moreover have "content_hash e \<notin> content_hash ` set (take k q)"
        using split e qv by auto
      ultimately show ?thesis by simp
    next
      case False
      with l have lv: "fmlookup (user_messages s) v = Some qv" by simp
      then have "content_hash e \<in> message_hashes s"
        using ix e by (auto simp: hashes_indexed_def)
      moreover have "content_hash ` set qv \<inter> content_hash ` set q = {}"
        using dj False lv assms(2) unfolding hashes_disjoint_def by blast
      then have "content_hash e \<notin> content_hash ` set (take k q)"
        using e by (auto dest: in_set_takeD)
      ultimately show ?thesis by simp
    qed
  qed
  moreover have "hashes_distinct ?s'"
    using di dq by (auto simp: hashes_distinct_def simp flip: drop_map)
  moreover have "hashes_disjoint ?s'"
    unfolding hashes_disjoint_def
  proof (intro allI impI)
    fix u1 q1 u2 q2
    assume a: "u1 \<noteq> u2 \<and> fmlookup (user_messages ?s') u1 = Some q1 \<and>
        fmlookup (user_messages ?s') u2 = Some q2"
    define p1 where "p1 = (if u1 = u then q else q1)"
    define p2 where "p2 = (if u2 = u then q else q2)"
    have "fmlookup (user_messages s) u1 = Some p1" "fmlookup (user_messages s) u2 = Some p2"
      using a assms(2) by (auto simp: p1_def p2_def split: if_splits)
    then have "content_hash ` set p1 \<inter> content_hash ` set p2 = {}"
      using dj a unfolding hashes_disjoint_def by blast
    moreover have "set q1 \<subseteq> set p1" "set q2 \<subseteq> set p2"
      using a by (auto simp: p1_def p2_def split: if_splits dest: in_set_dropD)
    ultimately show "content_hash ` set q1 \<inter> content_hash ` set q2 = {}" by blast
  qed
  ultimately show ?thesis by (simp add: filter_inv_def)
qed

lemma cleanup_old_messages_inv:
  assumes "cleanup_old_messages cfg u t s = Inr s2" "filter_inv s"
  shows "filter_inv s2"
  using assms(1)
proof (cases rule: cleanup_old_messages_cases)
  case fresh
  then show ?thesis using filter_inv_new_deque[OF assms(2)] by simp
next
  case (known q k)
  then show ?thesis using filter_inv_drop[OF assms(2)] by simp
qed

lemma filter_inv_admit:
  assumes "filter_inv s" "fmlookup (user_messages s) u = Some q" "h \<notin> message_hashes s"
    "content_hash e = h"
  shows "filter_inv (s\<lparr>user_messages := fmupd u (deque_append m q e) (user_messages s),
                       message_hashes := insert h (message_hashes s)\<rparr>)"
proof -
  let ?q' = "deque_append m q e"
  from assms have ix: "hashes_indexed s" and di: "hashes_distinct s" and dj: "hashes_disjoint s"
    by (simp_all add: filter_inv_def)
  have fresh: "\<And>v qv. fmlookup (user_messages s) v = Some qv \<Longrightarrow> h \<notin> content_hash ` set qv"
    using ix assms(3) by (auto simp: hashes_indexed_def)
  have "set (tl (q @ [e])) \<subseteq> set (q @ [e])"
    by (rule subsetI) (erule list.set_sel(2)[rotated], simp)
  then have sub: "set ?q' \<subseteq> insert e (set q)"
    by (auto simp: deque_append_def Let_def)
  have "distinct (map content_hash (q @ [e]))"
    using di assms(2,4) fresh[OF assms(2)] by (auto simp: hashes_distinct_def)
  then have dq': "distinct (map content_hash ?q')"
    by (auto simp: deque_append_def Let_def map_tl distinct_tl simp del: map_append)
  have "hashes_indexed (s\<lparr>user_messages := fmupd u ?q' (user_messages s),
                       message_hashes := insert h (message_hashes s)\<rparr>)"
    using ix sub assms(2,4) by (fastforce simp: hashes_indexed_def)
  moreover have "hashes_distinct (s\<lparr>user_messages := fmupd u ?q' (user_messages s),
                       message_hashes := insert h (message_hashes s)\<rparr>)"
    using di dq' by (auto simp: hashes_distinct_def)
  moreover have "hashes_disjoint (s\<lparr>user_messages := fmupd u ?q' (user_messages s),
                       message_hashes := insert h (message_hashes s)\<rparr>)"
    unfolding hashes_disjoint_def
  proof (intro allI impI)
    fix u1 q1 u2 q2
    assume a: "u1 \<noteq> u2 \<and>
      fmlookup (user_messages (s\<lparr>user_messages := fmupd u ?q' (user_messages s),
                       message_hashes := insert h (message_hashes s)\<rparr>)) u1 = Some q1 \<and>
      fmlookup (user_messages (s\<lparr>user_messages := fmupd u ?q' (user_messages s),
                       message_hashes := insert h (message_hashes s)\<rparr>)) u2 = Some q2"
    define p1 where "p1 = (if u1 = u then q else q1)"
    define p2 where "p2 = (if u2 = u then q else q2)"
    have l: "fmlookup (user_messages s) u1 = Some p1" "fmlookup (user_messages s) u2 = Some p2"
      using a assms(2) by (auto simp: p1_def p2_def split: if_splits)
    then have d: "content_hash ` set p1 \<inter> content_hash ` set p2 = {}"
      using dj a unfolding hashes_disjoint_def by blast
    have f: "h \<notin> content_hash ` set p1" "h \<notin> content_hash ` set p2"
      using fresh l by blast+
    have s1: "set q1 \<subseteq> insert e (set p1)" "u1 \<noteq> u \<Longrightarrow> q1 = p1"
      using a sub by (auto simp: p1_def split: if_splits)
    have s2: "set q2 \<subseteq> insert e (set p2)" "u2 \<noteq> u \<Longrightarrow> q2 = p2"
      using a sub by (auto simp: p2_def split: if_splits)
    have i1: "content_hash ` set q1 \<subseteq> insert h (content_hash ` set p1)"
      using s1(1) assms(4) by auto
    have i2: "content_hash ` set q2 \<subseteq> insert h (content_hash ` set p2)"
      using s2(1) assms(4) by auto
    show "content_hash ` set q1 \<inter> content_hash ` set q2 = {}"
    proof (cases "u1 = u")
      case True
      then have "q2 = p2" using a s2 by simp
      then show ?thesis using d f i1 by blast
    next
      case False
      then have "q1 = p1" using s1 by simp
      then show ?thesis using d f i2 by blast
    qed
  qed
  ultimately show ?thesis by (simp add: filter_inv_def)
qed

lemma is_duplicate_inv:
  assumes "filter_inv s"
  shows "filter_inv (snd (is_duplicate R cfg u t text s))"
proof (cases "cleanup_old_messages cfg u t (s\<lparr>total_processed := total_processed s + 1\<rparr>)")
  case (Inl err)
  then show ?thesis using assms by (simp add: is_duplicate_def filter_inv_counters)
next
  case (Inr s2)
  have inv2: "filter_inv s2"
    using cleanup_old_messages_inv[OF Inr] assms by (simp add: filter_inv_counters)
  from cleanup_old_messages_deque[OF Inr] obtain q where
    q: "fmlookup (user_messages s2) u = Some q" by blast
  have same: "s2\<lparr>user_messages := user_messages s2\<rparr> = s2" by simp
  show ?thesis
    using Inr inv2 q filter_inv_admit[OF inv2 q]
    by (simp add: is_duplicate_def Let_def user_deque_known filter_inv_counters same)
qed

lemma is_duplicate_any_state:
  assumes "\<And>t. v \<noteq> PyStr t"
  shows "snd (is_duplicate_any R cfg u t v s) = s\<lparr>total_processed := total_processed s + 1\<rparr> \<or>
    cleanup_old_messages cfg u t (s\<lparr>total_processed := total_processed s + 1\<rparr>) =
      Inr (snd (is_duplicate_any R cfg u t v s))"
  using assms by (cases v) (auto simp: Let_def split: sum.splits)

lemma is_duplicate_any_inv:
  assumes "filter_inv s"
  shows "filter_inv (snd (is_duplicate_any R cfg u t v s))"
proof (cases "\<exists>x. v = PyStr x")
  case True
  then show ?thesis using is_duplicate_inv[OF assms] by auto
next
  case False
  then have "\<And>x. v \<noteq> PyStr x" by blast
  from is_duplicate_any_state[OF this, of R cfg u t s] show ?thesis
    using assms cleanup_old_messages_inv by (auto simp: filter_inv_counters)
qed

lemma clear_user_cache_inv:
  assumes "filter_inv s"
  shows "filter_inv (clear_user_cache u s)"
proof (cases "fmlookup (user_messages s) u")
  case None
  then show ?thesis using assms by (simp add: clear_user_cache_def)
next
  case (Some q)
  have "clear_user_cache u s =
      s\<lparr>user_messages := fmupd u (drop (length q) q) (user_messages s),
        message_hashes := message_hashes s - content_hash ` set (take (length q) q)\<rparr>"
    using Some by (simp add: clear_user_cache_def fold_discard)
  then show ?thesis using filter_inv_drop[OF assms Some, of "length q"] by simp
qed

lemma clear_all_cache_inv: "filter_inv (clear_all_cache s)"
  by (simp add: clear_all_cache_def filter_inv_def hashes_indexed_def hashes_distinct_def
      hashes_disjoint_def)

lemma reachable_inv: "reachable R cfg s \<Longrightarrow> filter_inv s"
  by (induction rule: reachable.induct)
    (simp_all add: filter_inv_init is_duplicate_any_inv clear_user_cache_inv clear_all_cache_inv)

subsection \<open>What \<^verbatim>\<open>is_duplicate\<close> returns\<close>

lemma is_duplicate_after_cleanup:
  assumes "cleanup_old_messages cfg u t (s\<lparr>total_processed := total_processed s + 1\<rparr>) = Inr s2"
    and "fmlookup (user_messages s2) u = Some q"
  shows "is_duplicate R cfg u t text s =
     (if normalize_text R text = [] then (Inr False, s2)
      else if md5_hexdigest R (normalize_text R text) \<in> message_hashes s2
        then (Inr True, s2\<lparr>blocked_count := blocked_count s2 + 1\<rparr>)
      else if any_similar R (similarity_threshold cfg) text q
        then (Inr True, s2\<lparr>blocked_count := blocked_count s2 + 1\<rparr>)
      else (Inr False,
            s2\<lparr>user_messages :=
                  fmupd u
                    (deque_append (max_messages_per_user cfg) q
                       \<lparr>timestamp = t,
                        content_hash = md5_hexdigest R (normalize_text R text),
                        raw_text = text\<rparr>)
                    (user_messages s2),
                message_hashes :=
                  insert (md5_hexdigest R (normalize_text R text)) (message_hashes s2)\<rparr>))"
  using assms by (simp add: is_duplicate_def Let_def user_deque_known)

lemma any_similar_iff:
  "any_similar R thr text q \<longleftrightarrow> (\<exists>e\<in>set q. thr \<le> calculate_similarity R text (raw_text e))"
  by (induction q) auto

lemma threshold_decides:
  assumes "cleanup_old_messages cfg u t (s\<lparr>total_processed := total_processed s + 1\<rparr>) = Inr s2"
    and "fmlookup (user_messages s2) u = Some q"
    and "normalize_text R text \<noteq> []"
    and "md5_hexdigest R (normalize_text R text) \<notin> message_hashes s2"
  shows "fst (is_duplicate R cfg u t text s) =
     Inr (\<exists>e\<in>set q. similarity_threshold cfg \<le> calculate_similarity R text (raw_text e))"
  using is_duplicate_after_cleanup[OF assms(1,2), of R "text"] assms(3,4)
  by (simp add: any_similar_iff)

lemma similarity_of_empty_normal:
  assumes "normalize_text R text = []"
  shows "calculate_similarity R text t2 = 0 \<or> calculate_similarity R text t2 = 1"
  using assms by (simp add: calculate_similarity_def Let_def py_split_def)

lemma is_duplicate_any_falsy:
  assumes "\<not> truthy v" "cleanup_old_messages cfg u t (s\<lparr>total_processed := total_processed s + 1\<rparr>) = Inr s2"
  shows "is_duplicate_any R cfg u t v s = (Inr False, s2)"
proof (cases v)
  case (PyStr x)
  with assms(1) have "x = []" by simp
  then show ?thesis using PyStr assms(2) by (simp add: is_duplicate_def normalize_text_def)
qed (use assms in simp_all)

lemma is_duplicate_any_int:
  assumes "n \<noteq> 0" "cleanup_old_messages cfg u t (s\<lparr>total_processed := total_processed s + 1\<rparr>) = Inr s2"
  shows "is_duplicate_any R cfg u t (PyInt n) s = (Inl AttributeError, s2)"
  using assms by simp

lemma is_duplicate_any_other:
  assumes "\<And>x. v \<noteq> PyStr x"
    and "cleanup_old_messages cfg u t (s\<lparr>total_processed := total_processed s + 1\<rparr>) = Inr s2"
  shows "snd (is_duplicate_any R cfg u t v s) = s2"
  using assms by (cases v) (auto simp: Let_def split: sum.splits)

lemma is_duplicate_str_total:
  assumes "0 \<le> max_messages_per_user cfg"
  shows "\<exists>b. fst (is_duplicate R cfg u t text s) = Inr b"
proof -
  from cleanup_old_messages_total[OF assms] obtain s2 where
    c: "cleanup_old_messages cfg u t (s\<lparr>total_processed := total_processed s + 1\<rparr>) = Inr s2"
    by blast
  from cleanup_old_messages_deque[OF c] obtain q where "fmlookup (user_messages s2) u = Some q"
    by blast
  from is_duplicate_after_cleanup[OF c this, of R "text"] show ?thesis
    by (cases "normalize_text R text = []";
        cases "md5_hexdigest R (normalize_text R text) \<in> message_hashes s2";
        cases "any_similar R (similarity_threshold cfg) text q") auto
qed

lemma cleanup_old_messages_dom:
  assumes "cleanup_old_messages cfg u t s = Inr s2"
  shows "fmdom' (user_messages s2) = insert u (fmdom' (user_messages s))"
  using assms by (cases rule: cleanup_old_messages_cases) auto

lemma is_duplicate_dom:
  assumes "cleanup_old_messages cfg u t (s\<lparr>total_processed := total_processed s + 1\<rparr>) = Inr s2"
  shows "fmdom' (user_messages (snd (is_duplicate R cfg u t text s))) =
    insert u (fmdom' (user_messages s))"
proof -
  from cleanup_old_messages_deque[OF assms] obtain q where
    q: "fmlookup (user_messages s2) u = Some q" by blast
  have d: "fmdom' (user_messages s2) = insert u (fmdom' (user_messages s))"
    using cleanup_old_messages_dom[OF assms] by simp
  show ?thesis
    using is_duplicate_after_cleanup[OF assms q, of R "text"] d by auto
qed

lemma is_duplicate_any_dom:
  assumes "0 \<le> max_messages_per_user cfg"
  shows "fmdom' (user_messages (snd (is_duplicate_any R cfg u t v s))) =
    insert u (fmdom' (user_messages s))"
proof -
  from cleanup_old_messages_total[OF assms] obtain s2 where
    c: "cleanup_old_messages cfg u t (s\<lparr>total_processed := total_processed s + 1\<rparr>) = Inr s2"
    by blast
  show ?thesis
  proof (cases "\<exists>x. v = PyStr x")
    case True
    then show ?thesis using is_duplicate_dom[OF c] by auto
  next
    case False
    then have "\<And>x. v \<noteq> PyStr x" by blast
    from is_duplicate_any_other[OF this c] show ?thesis
      using cleanup_old_messages_dom[OF c] by simp
  qed
qed

lemma clear_user_cache_dom:
  "fmdom' (user_messages (clear_user_cache u s)) = fmdom' (user_messages s)"
  by (auto simp: clear_user_cache_def fmlookup_dom'_iff split: option.splits)

lemma clear_user_cache_deque: "deque_of (user_messages (clear_user_cache u s)) u = []"
  by (simp add: clear_user_cache_def deque_of_def split: option.splits)

lemma cross_user_exact:
  assumes "0 \<le> max_messages_per_user cfg" "normalize_text R T \<noteq> []" "u1 \<noteq> u2"
  shows "fst (run_calls R cfg [(u1, t1, T), (u2, t2, T)] init_state) = [Inr False, Inr True]"
  using assms
  by (simp add: is_duplicate_def cleanup_old_messages_def user_deque_def init_state_def Let_def
      split: prod.splits)

lemma run_calls_append:
  "run_calls R cfg (xs @ ys) s =
     (case run_calls R cfg xs s of
        (rs, s') \<Rightarrow> (case run_calls R cfg ys s' of (rs', s'') \<Rightarrow> (rs @ rs', s'')))"
  by (induction xs arbitrary: s) (auto split: prod.splits)

lemma run_calls_reachable:
  "reachable R cfg s \<Longrightarrow> reachable R cfg (snd (run_calls R cfg cs s))"
proof (induction cs arbitrary: s)
  case Nil
  then show ?case by simp
next
  case (Cons c cs)
  obtain u t m where c: "c = (u, t, m)" by (cases c)
  have "reachable R cfg (snd (is_duplicate_any R cfg u t (PyStr m) s))"
    using Cons.prems by (rule reach_is_duplicate)
  then have "reachable R cfg (snd (run_calls R cfg cs (snd (is_duplicate R cfg u t m s))))"
    using Cons.IH by simp
  then show ?case using c by (auto split: prod.splits)
qed

lemma recent_positive_limit:
  assumes "0 < limit"
  shows "get_user_recent_messages u limit s =
           drop (length (deque_of (user_messages s) u) - nat limit) (deque_of (user_messages s) u) \<and>
         int (length (get_user_recent_messages u limit s)) \<le> limit"
  using assms
  by (auto simp: get_user_recent_messages_def py_slice_from_def deque_of_def Let_def max_def
      nat_diff_distrib' split: option.splits)

subsection \<open>Evaluation with \<open>cpython_basic\<close>\<close>

text \<open>
  The digests are those \<^verbatim>\<open>hashlib\<close> returns for the same strings.
\<close>

lemma md5_a:
  "md5_hexdigest_utf8 [97] =
     ''0cc175b9c0f1b6a831c399e269772661''"
  by code_simp

lemma md5_b:
  "md5_hexdigest_utf8 [98] =
     ''92eb5ffee6ae2fec3ad71c777531578f''"
  by code_simp

lemma md5_c:
  "md5_hexdigest_utf8 [99] =
     ''4a8a08f09d37b73795649038408b5f33''"
  by code_simp

lemma md5_d:
  "md5_hexdigest_utf8 [100] =
     ''8277e0910d750195b448797616e091ad''"
  by code_simp

lemma md5_e:
  "md5_hexdigest_utf8 [101] =
     ''e1671797c52e15f763380b45e841ec32''"
  by code_simp

lemma md5_f:
  "md5_hexdigest_utf8 [102] =
     ''8fa14cdd754f91cc6554c9e71929cce7''"
  by code_simp

lemma md5_privet:
  "md5_hexdigest_utf8 [1087, 1088, 1080, 1074, 1077, 1090] =
     ''608333adc72f545078ede3aad71bfe74''"
  by code_simp

lemma md5_kak_dela:
  "md5_hexdigest_utf8 [1082, 1072, 1082, 32, 1076, 1077, 1083, 1072] =
     ''1a5ec1cd3e64f2dd402d0e82bfe6a9ab''"
  by code_simp

lemma md5_a_b:
  "md5_hexdigest_utf8 [97, 32, 98] =
     ''0cc9cd4dd26c5137b675a0d819cb9ab0''"
  by code_simp

lemma md5_a__b:
  "md5_hexdigest_utf8 [97, 32, 32, 98] =
     ''b5cf57e329bd2a219a57cd31692c2d69''"
  by code_simp

lemma md5_abcd:
  "md5_hexdigest_utf8 [97, 32, 98, 32, 99, 32, 100] =
     ''713f592bd537f7725d491a03e837d64a''"
  by code_simp

lemma md5_abcde:
  "md5_hexdigest_utf8 [97, 32, 98, 32, 99, 32, 100, 32, 101] =
     ''2438b89b82c22b3d063b2ee165c033c0''"
  by code_simp

lemma md5_00_78:
  "md5_hexdigest_utf8 
     [48, 48, 32, 48, 49, 32, 48, 50, 32, 48, 51, 32, 48, 52, 32, 48, 53, 32, 48, 54, 32,
     48, 55, 32, 48, 56, 32, 48, 57, 32, 49, 48, 32, 49, 49, 32, 49, 50, 32, 49, 51, 32,
     49, 52, 32, 49, 53, 32, 49, 54, 32, 49, 55, 32, 49, 56, 32, 49, 57, 32, 50, 48, 32,
     50, 49, 32, 50, 50, 32, 50, 51, 32, 50, 52, 32, 50, 53, 32, 50, 54, 32, 50, 55, 32,
     50, 56, 32, 50, 57, 32, 51, 48, 32, 51, 49, 32, 51, 50, 32, 51, 51, 32, 51, 52, 32,
     51, 53, 32, 51, 54, 32, 51, 55, 32, 51, 56, 32, 51, 57, 32, 52, 48, 32, 52, 49, 32,
     52, 50, 32, 52, 51, 32, 52, 52, 32, 52, 53, 32, 52, 54, 32, 52, 55, 32, 52, 56, 32,
     52, 57, 32, 53, 48, 32, 53, 49, 32, 53, 50, 32, 53, 51, 32, 53, 52, 32, 53, 53, 32,
     53, 54, 32, 53, 55, 32, 53, 56, 32, 53, 57, 32, 54, 48, 32, 54, 49, 32, 54, 50, 32,
     54, 51, 32, 54, 52, 32, 54, 53, 32, 54, 54, 32, 54, 55, 32, 54, 56, 32, 54, 57, 32,
     55, 48, 32, 55, 49, 32, 55, 50, 32, 55, 51, 32, 55, 52, 32, 55, 53, 32, 55, 54, 32,
     55, 55, 32, 55, 56] =
     ''bd4fcfb3e5dc74bfd5780baa00c57da7''"
  by code_simp

lemma md5_00_99:
  "md5_hexdigest_utf8 
     [48, 48, 32, 48, 49, 32, 48, 50, 32, 48, 51, 32, 48, 52, 32, 48, 53, 32, 48, 54, 32,
     48, 55, 32, 48, 56, 32, 48, 57, 32, 49, 48, 32, 49, 49, 32, 49, 50, 32, 49, 51, 32,
     49, 52, 32, 49, 53, 32, 49, 54, 32, 49, 55, 32, 49, 56, 32, 49, 57, 32, 50, 48, 32,
     50, 49, 32, 50, 50, 32, 50, 51, 32, 50, 52, 32, 50, 53, 32, 50, 54, 32, 50, 55, 32,
     50, 56, 32, 50, 57, 32, 51, 48, 32, 51, 49, 32, 51, 50, 32, 51, 51, 32, 51, 52, 32,
     51, 53, 32, 51, 54, 32, 51, 55, 32, 51, 56, 32, 51, 57, 32, 52, 48, 32, 52, 49, 32,
     52, 50, 32, 52, 51, 32, 52, 52, 32, 52, 53, 32, 52, 54, 32, 52, 55, 32, 52, 56, 32,
     52, 57, 32, 53, 48, 32, 53, 49, 32, 53, 50, 32, 53, 51, 32, 53, 52, 32, 53, 53, 32,
     53, 54, 32, 53, 55, 32, 53, 56, 32, 53, 57, 32, 54, 48, 32, 54, 49, 32, 54, 50, 32,
     54, 51, 32, 54, 52, 32, 54, 53, 32, 54, 54, 32, 54, 55, 32, 54, 56, 32, 54, 57, 32,
     55, 48, 32, 55, 49, 32, 55, 50, 32, 55, 51, 32, 55, 52, 32, 55, 53, 32, 55, 54, 32,
     55, 55, 32, 55, 56, 32, 55, 57, 32, 56, 48, 32, 56, 49, 32, 56, 50, 32, 56, 51, 32,
     56, 52, 32, 56, 53, 32, 56, 54, 32, 56, 55, 32, 56, 56, 32, 56, 57, 32, 57, 48, 32,
     57, 49, 32, 57, 50, 32, 57, 51, 32, 57, 52, 32, 57, 53, 32, 57, 54, 32, 57, 55, 32,
     57, 56, 32, 57, 57] =
     ''db224949fa70f6feea30518214eb29f2''"
  by code_simp

lemmas rt_simps = cpython_basic_def lower_cp_def py_isspace_def py_isword_def

lemmas norm_simps = normalize_text_def py_strip_def py_split_def re_sub_punct_def Let_def

lemma md5_cpython_basic: "md5_hexdigest cpython_basic = md5_hexdigest_utf8"
  by (simp add: cpython_basic_def)

lemma normalize_letter:
  "97 \<le> x \<Longrightarrow> x \<le> 122 \<Longrightarrow> normalize_text cpython_basic [x] = [x]"
  by (simp add: norm_simps rt_simps)

lemma similarity_letters:
  "97 \<le> x \<Longrightarrow> x \<le> 122 \<Longrightarrow> 97 \<le> y \<Longrightarrow> y \<le> 122 \<Longrightarrow> x \<noteq> y \<Longrightarrow>
     calculate_similarity cpython_basic [x] [y] = 0"
  by (simp add: calculate_similarity_def normalize_letter) (simp add: py_split_def rt_simps)

lemma normalize_privet:
  "normalize_text cpython_basic privet = [1087, 1088, 1080, 1074, 1077, 1090]"
  by (simp add: norm_simps rt_simps privet_def)

lemma normalize_kak_dela:
  "normalize_text cpython_basic kak_dela = [1082, 1072, 1082, 32, 1076, 1077, 1083, 1072]"
  by (simp add: norm_simps rt_simps kak_dela_def)

lemma similarity_kak_dela_privet: "calculate_similarity cpython_basic kak_dela privet = 0"
  by (simp add: calculate_similarity_def normalize_privet normalize_kak_dela)
    (simp add: py_split_def rt_simps kak_dela_def privet_def)

lemma normalize_words_abcd: "normalize_text cpython_basic words_abcd = words_abcd"
  by (simp add: norm_simps rt_simps words_abcd_def)

lemma normalize_words_abcde: "normalize_text cpython_basic words_abcde = words_abcde"
  by (simp add: norm_simps rt_simps words_abcde_def)

lemma similarity_abcde_abcd: "calculate_similarity cpython_basic words_abcde words_abcd = 4 / 5"
  by (simp add: calculate_similarity_def normalize_words_abcd normalize_words_abcde)
    (simp add: words_abcd_def words_abcde_def py_split_def rt_simps card_insert_if)

lemma normalize_words_00_78: "normalize_text cpython_basic words_00_78 = words_00_78"
  by (simp add: norm_simps rt_simps words_00_78_def)

lemma normalize_words_00_99: "normalize_text cpython_basic words_00_99 = words_00_99"
  by (simp add: norm_simps rt_simps words_00_99_def)

lemma similarity_00_99_00_78:
  "calculate_similarity cpython_basic words_00_99 words_00_78 = 79 / 100"
  by (simp add: calculate_similarity_def normalize_words_00_78 normalize_words_00_99)
    (simp add: words_00_78_def words_00_99_def py_split_def rt_simps card_insert_if)

lemma run_six:
  "run_calls cpython_basic cfg_test six_calls init_state =
     ([Inr False, Inr False, Inr False, Inr False, Inr False, Inr False],
      \<lparr>user_messages =
         fmupd 1
           [\<lparr>timestamp = 2, content_hash = md5_hexdigest_utf8 [98], raw_text = [98]\<rparr>,
            \<lparr>timestamp = 3, content_hash = md5_hexdigest_utf8 [99], raw_text = [99]\<rparr>,
            \<lparr>timestamp = 4, content_hash = md5_hexdigest_utf8 [100], raw_text = [100]\<rparr>,
            \<lparr>timestamp = 5, content_hash = md5_hexdigest_utf8 [101], raw_text = [101]\<rparr>,
            \<lparr>timestamp = 6, content_hash = md5_hexdigest_utf8 [102], raw_text = [102]\<rparr>]
           fmempty,
       message_hashes =
         {md5_hexdigest_utf8 [97], md5_hexdigest_utf8 [98], md5_hexdigest_utf8 [99],
          md5_hexdigest_utf8 [100], md5_hexdigest_utf8 [101], md5_hexdigest_utf8 [102]},
       blocked_count = 0, total_processed = 6\<rparr>)"
  by (simp add: six_calls_def is_duplicate_def cleanup_old_messages_def user_deque_def
      init_state_def cfg_test_def deque_append_def Let_def md5_cpython_basic normalize_letter
      similarity_letters md5_a md5_b md5_c md5_d md5_e md5_f insert_commute)

lemma run_two_users:
  "snd (run_calls cpython_basic cfg_test [(1, 0, privet), (2, 1, kak_dela)] init_state) =
     \<lparr>user_messages =
        fmupd 2 [\<lparr>timestamp = 1, content_hash = ''1a5ec1cd3e64f2dd402d0e82bfe6a9ab'',
                  raw_text = kak_dela\<rparr>]
          (fmupd 1 [\<lparr>timestamp = 0, content_hash = ''608333adc72f545078ede3aad71bfe74'',
                     raw_text = privet\<rparr>] fmempty),
      message_hashes = {''1a5ec1cd3e64f2dd402d0e82bfe6a9ab'', ''608333adc72f545078ede3aad71bfe74''},
      blocked_count = 0, total_processed = 2\<rparr>"
  by (simp add: is_duplicate_def cleanup_old_messages_def user_deque_def
      init_state_def cfg_test_def deque_append_def Let_def md5_cpython_basic normalize_privet
      normalize_kak_dela md5_privet md5_kak_dela)

lemma cross_user_exact_basic:
  "fst (run_calls cpython_basic cfg_test [(1, 0, privet), (2, 1, privet)] init_state) =
     [Inr False, Inr True]"
  by (rule cross_user_exact) (simp_all add: cfg_test_def normalize_privet)

lemma admit_first:
  assumes "normalize_text cpython_basic m \<noteq> []"
  shows "is_duplicate cpython_basic cfg_test 1 0 m init_state =
     (Inr False,
      \<lparr>user_messages =
         fmupd 1 [\<lparr>timestamp = 0,
                   content_hash = md5_hexdigest_utf8 (normalize_text cpython_basic m),
                   raw_text = m\<rparr>] fmempty,
       message_hashes = {md5_hexdigest_utf8 (normalize_text cpython_basic m)},
       blocked_count = 0, total_processed = 1\<rparr>)"
  using assms
  by (simp add: is_duplicate_def cleanup_old_messages_def user_deque_def init_state_def
      cfg_test_def deque_append_def Let_def md5_cpython_basic)

lemma second_call_threshold:
  assumes n1: "normalize_text cpython_basic m1 \<noteq> []"
    and n2: "normalize_text cpython_basic m2 \<noteq> []"
    and h: "md5_hexdigest_utf8 (normalize_text cpython_basic m2) \<noteq>
            md5_hexdigest_utf8 (normalize_text cpython_basic m1)"
  shows "\<exists>s2 e. cleanup_old_messages cfg_test 1 1
            ((snd (is_duplicate cpython_basic cfg_test 1 0 m1 init_state))
               \<lparr>total_processed :=
                  total_processed (snd (is_duplicate cpython_basic cfg_test 1 0 m1 init_state)) + 1\<rparr>)
            = Inr s2 \<and>
          fmlookup (user_messages s2) 1 = Some [e] \<and> raw_text e = m1 \<and>
          md5_hexdigest cpython_basic (normalize_text cpython_basic m2) \<notin> message_hashes s2"
  using h unfolding admit_first[OF n1]
  by (simp add: cleanup_old_messages_def user_deque_def cfg_test_def md5_cpython_basic)

section \<open>The claims\<close>

text \<open>
  Claim C1 (capacity eviction): with five messages per user, after one user has sent six
  different, mutually dissimilar messages within the window, the claim expects an exact
  repeat of the first to be admitted and repeats of the second to sixth to be suppressed.
  The bounded deque drops the first entry on the sixth admission without a word to the
  hash set (line 167; lines 118 and 197 discard the hash when they remove an entry), so
  the hash of the first message stays in the set: the code suppresses all six repeats,
  the first included.
\<close>

theorem evicted_message_still_suppressed:
  "fst (run_calls cpython_basic cfg_test (six_calls @ repeat_calls) init_state) =
     [Inr False, Inr False, Inr False, Inr False, Inr False, Inr False,
      Inr True, Inr True, Inr True, Inr True, Inr True, Inr True]"
  by (simp add: run_calls_append run_six)
    (simp add: repeat_calls_def is_duplicate_def cleanup_old_messages_def user_deque_def
      cfg_test_def Let_def md5_cpython_basic normalize_letter)

text \<open>
  Claim C2 (the hash set holds exactly the hashes of the retained entries): after the same
  six admissions the state is reachable, the hash of the first message is in the hash
  set, and no retained entry carries it. (The other direction holds in every reachable
  state: \<open>reachable_inv\<close>.)
\<close>

theorem capacity_eviction_breaks_index:
  "reachable cpython_basic cfg_test (snd (run_calls cpython_basic cfg_test six_calls init_state)) \<and>
   md5_hexdigest_utf8 [97] \<in>
     message_hashes (snd (run_calls cpython_basic cfg_test six_calls init_state)) \<and>
   md5_hexdigest_utf8 [97] \<notin>
     retained_hashes (snd (run_calls cpython_basic cfg_test six_calls init_state))"
  using run_calls_reachable[OF reach_init, of cpython_basic cfg_test six_calls]
  by (simp add: run_six retained_hashes_def deque_of_def md5_a md5_b md5_c md5_d md5_e md5_f)

text \<open>
  Claim C3 (two users, the same text, both for the first time): the claim expects
  \<^verbatim>\<open>False\<close> twice. The hash set is shared by all users, so the second user's call finds
  the hash the first user's call has added: whenever the text does not normalize to the
  empty string, the first call returns \<^verbatim>\<open>False\<close> and the second \<^verbatim>\<open>True\<close>, whatever the
  two times are.
\<close>

theorem second_user_suppressed:
  assumes "0 \<le> max_messages_per_user cfg" "normalize_text R T \<noteq> []" "u1 \<noteq> u2"
  shows "fst (run_calls R cfg [(u1, t1, T), (u2, t2, T)] init_state) = [Inr False, Inr True]"
  using assms by (rule cross_user_exact)

theorem second_user_suppressed_witness:
  "0 \<le> max_messages_per_user cfg_test \<and> normalize_text cpython_basic privet \<noteq> [] \<and>
   (1::int) \<noteq> 2 \<and>
   fst (run_calls cpython_basic cfg_test [(1, 0, privet), (2, 1, privet)] init_state) =
     [Inr False, Inr True]"
proof -
  have m: "0 \<le> max_messages_per_user cfg_test" by (simp add: cfg_test_def)
  have n: "normalize_text cpython_basic privet \<noteq> []" by (simp add: normalize_privet)
  have d: "(1::int) \<noteq> 2" by simp
  from second_user_suppressed[OF m n d, of 0 1] m n d show ?thesis by blast
qed

text \<open>
  The claim as stated fails for the greeting of the test script.
\<close>

theorem second_user_suppressed_counterexample:
  "fst (run_calls cpython_basic cfg_test [(1, 0, privet), (2, 1, privet)] init_state) \<noteq>
     [Inr False, Inr False]"
  unfolding cross_user_exact_basic by simp

text \<open>
  Claim C4 (the concrete scenario): window 60, five messages per user, threshold 0.8; user
  12345 sends the greeting twice and the question three times, every call at most 60
  seconds after the first. The results are \<^verbatim>\<open>False, True, False, True, True\<close> and
  \<^verbatim>\<open>get_stats\<close> then reports 5 processed, 3 blocked, 1 active user and 2 cached
  messages.
\<close>

theorem concrete_scenario:
  assumes "t2 - t1 \<le> 60" "t3 - t1 \<le> 60" "t4 - t1 \<le> 60" "t5 - t1 \<le> 60"
  shows "fst (run_calls cpython_basic cfg_test
            [(12345, t1, privet), (12345, t2, privet), (12345, t3, kak_dela),
             (12345, t4, kak_dela), (12345, t5, kak_dela)] init_state) =
           [Inr False, Inr True, Inr False, Inr True, Inr True] \<and>
         get_stats (snd (run_calls cpython_basic cfg_test
            [(12345, t1, privet), (12345, t2, privet), (12345, t3, kak_dela),
             (12345, t4, kak_dela), (12345, t5, kak_dela)] init_state)) =
           \<lparr>stat_total_processed = 5, stat_blocked_count = 3, stat_active_users = 1,
            stat_cached_messages = 2\<rparr>"
  using assms
  by (simp add: is_duplicate_def cleanup_old_messages_def user_deque_def
      init_state_def cfg_test_def deque_append_def Let_def md5_cpython_basic normalize_privet
      normalize_kak_dela similarity_kak_dela_privet md5_privet md5_kak_dela get_stats_def
      deque_len_def)

theorem concrete_scenario_witness:
  "fst (run_calls cpython_basic cfg_test
      [(12345, 0, privet), (12345, 10, privet), (12345, 20, kak_dela),
       (12345, 30, kak_dela), (12345, 40, kak_dela)] init_state) =
     [Inr False, Inr True, Inr False, Inr True, Inr True] \<and>
   get_stats (snd (run_calls cpython_basic cfg_test
      [(12345, 0, privet), (12345, 10, privet), (12345, 20, kak_dela),
       (12345, 30, kak_dela), (12345, 40, kak_dela)] init_state)) =
     \<lparr>stat_total_processed = 5, stat_blocked_count = 3, stat_active_users = 1,
      stat_cached_messages = 2\<rparr>"
  by (rule concrete_scenario) simp_all

text \<open>
  Claim C5 (\<^verbatim>\<open>get_stats\<close>): in the model \<^verbatim>\<open>get_stats\<close> is a function of the state that
  returns the four numbers and no state, as the method reads and does not write.
  \<^verbatim>\<open>cached_messages\<close> is the number of retained entries of all users. \<^verbatim>\<open>active_users\<close> is
  \<^verbatim>\<open>len(self.user_messages)\<close>, the number of deques that exist: the users with a
  non-empty deque and the users with an empty one, not the former alone as the claim has
  it. A call of \<^verbatim>\<open>is_duplicate\<close> that finds a bound that is not negative leaves the number
  as it was when the user had a deque and raises it by one when the user had none,
  whatever the argument and whatever the cleanup removes; \<^verbatim>\<open>clear_user_cache\<close> empties
  the deque of the user and leaves the number as it was; \<^verbatim>\<open>clear_all_cache\<close> makes it
  zero.
\<close>

theorem get_stats_counts:
  "stat_active_users (get_stats s) = nonempty_histories s + empty_histories s \<and>
   stat_cached_messages (get_stats s) =
     card {(k, i). i < length (deque_of (user_messages s) k)} \<and>
   stat_total_processed (get_stats s) = total_processed s \<and>
   stat_blocked_count (get_stats s) = blocked_count s \<and>
   (0 \<le> max_messages_per_user cfg \<longrightarrow>
      stat_active_users (get_stats (snd (is_duplicate_any R cfg u t v s))) =
        (if u \<in> fmdom' (user_messages s) then stat_active_users (get_stats s)
         else stat_active_users (get_stats s) + 1)) \<and>
   stat_active_users (get_stats (clear_user_cache u s)) = stat_active_users (get_stats s) \<and>
   deque_of (user_messages (clear_user_cache u s)) u = [] \<and>
   stat_active_users (get_stats (clear_all_cache s)) = 0"
proof -
  let ?um = "user_messages s"
  let ?A = "{k \<in> fmdom' ?um. deque_of ?um k \<noteq> []}"
  let ?B = "{k \<in> fmdom' ?um. deque_of ?um k = []}"
  have "finite ?A" "finite ?B" "?A \<inter> ?B = {}" "?A \<union> ?B = fmdom' ?um" by auto
  then have "card (fmdom' ?um) = card ?A + card ?B"
    using card_Un_disjoint[of ?A ?B] by simp
  then have a: "stat_active_users (get_stats s) = nonempty_histories s + empty_histories s"
    by (simp add: get_stats_def nonempty_histories_def empty_histories_def)
  have len: "deque_len ?um k = length (deque_of ?um k)" for k
    by (simp add: deque_len_def deque_of_def split: option.splits)
  have "{(k, i). i < length (deque_of ?um k)} = (SIGMA k:fmdom' ?um. {..<deque_len ?um k})"
    by (auto simp: len deque_of_def fmlookup_dom'_iff split: option.splits)
  then have b: "card {(k, i). i < length (deque_of ?um k)} = sum (deque_len ?um) (fmdom' ?um)"
    by simp
  have c: "stat_active_users (get_stats (snd (is_duplicate_any R cfg u t v s))) =
        (if u \<in> fmdom' ?um then stat_active_users (get_stats s)
         else stat_active_users (get_stats s) + 1)"
    if "0 \<le> max_messages_per_user cfg"
    using is_duplicate_any_dom[OF that, of R u t v s]
    by (simp add: get_stats_def insert_absorb)
  have d: "stat_active_users (get_stats (clear_user_cache u s)) = stat_active_users (get_stats s)"
    by (simp add: get_stats_def clear_user_cache_dom)
  have e: "stat_active_users (get_stats (clear_all_cache s)) = 0"
    by (simp add: get_stats_def clear_all_cache_def)
  show ?thesis using a b c d e clear_user_cache_deque by (simp add: get_stats_def)
qed

text \<open>
  One call with the empty string on a new filter: user 1 is counted with an empty deque,
  is still counted after \<^verbatim>\<open>clear_user_cache\<close>, and no longer after \<^verbatim>\<open>clear_all_cache\<close>.
\<close>

theorem get_stats_counts_witness:
  "0 \<le> max_messages_per_user cfg_test \<and>
   stat_active_users (get_stats
     (snd (is_duplicate_any cpython_basic cfg_test 1 0 (PyStr []) init_state))) = 1 \<and>
   deque_of (user_messages
     (snd (is_duplicate_any cpython_basic cfg_test 1 0 (PyStr []) init_state))) 1 = [] \<and>
   stat_active_users (get_stats (clear_user_cache 1
     (snd (is_duplicate_any cpython_basic cfg_test 1 0 (PyStr []) init_state)))) = 1 \<and>
   stat_active_users (get_stats (clear_all_cache
     (snd (is_duplicate_any cpython_basic cfg_test 1 0 (PyStr []) init_state)))) = 0"
proof -
  define s1 where "s1 = snd (is_duplicate_any cpython_basic cfg_test 1 0 (PyStr []) init_state)"
  have m: "0 \<le> max_messages_per_user cfg_test" by (simp add: cfg_test_def)
  have z: "stat_active_users (get_stats init_state) = 0" "1 \<notin> fmdom' (user_messages init_state)"
    by (simp_all add: get_stats_def init_state_def)
  from get_stats_counts[where s = init_state and cfg = cfg_test and R = cpython_basic and u = 1
      and t = 0 and v = "PyStr []"] m z
  have a: "stat_active_users (get_stats s1) = 1" unfolding s1_def by simp
  have e: "deque_of (user_messages s1) 1 = []"
    unfolding s1_def
    by (simp add: is_duplicate_def cleanup_old_messages_def user_deque_def init_state_def
        cfg_test_def normalize_text_def deque_of_def)
  from get_stats_counts[where s = s1 and u = 1] a
  have b: "stat_active_users (get_stats (clear_user_cache 1 s1)) = 1"
    and c: "stat_active_users (get_stats (clear_all_cache s1)) = 0" by simp_all
  show ?thesis using m a e b c unfolding s1_def by simp
qed

text \<open>
  After one call with the empty string, user 1 has an empty deque and is counted as
  active.
\<close>

theorem empty_history_counted_counterexample:
  "stat_active_users (get_stats (snd (is_duplicate cpython_basic cfg_test 1 0 [] init_state))) = 1 \<and>
   nonempty_histories (snd (is_duplicate cpython_basic cfg_test 1 0 [] init_state)) = 0"
  by (simp add: is_duplicate_def cleanup_old_messages_def user_deque_def init_state_def
      cfg_test_def normalize_text_def get_stats_def nonempty_histories_def deque_of_def)

text \<open>
  Claim C6 (normalization): the claim expects no leading or trailing whitespace, single
  spaces between words, and equal results and hashes for texts that differ in punctuation
  only. \<^verbatim>\<open>_normalize_text\<close> collapses the whitespace (line 63) before it deletes the
  punctuation (line 67), so a punctuation mark that stands alone leaves its two spaces
  behind: \<^verbatim>\<open>a , b\<close> becomes \<^verbatim>\<open>a\<close>, two spaces, \<^verbatim>\<open>b\<close>, which is not what \<^verbatim>\<open>a b\<close>
  becomes, the digests differ, and \<^verbatim>\<open>! a\<close> keeps a leading space.
\<close>

theorem standalone_punctuation_leaves_spaces:
  "normalize_text cpython_basic a_comma_b = [97, 32, 32, 98] \<and>
   normalize_text cpython_basic a_b = [97, 32, 98] \<and>
   md5_hexdigest cpython_basic (normalize_text cpython_basic a_comma_b) \<noteq>
     md5_hexdigest cpython_basic (normalize_text cpython_basic a_b) \<and>
   normalize_text cpython_basic bang_a = [32, 97]"
  by (simp add: norm_simps rt_simps a_comma_b_def a_b_def bang_a_def md5_a_b md5_a__b)

text \<open>
  Claim C7 (malformed input): \<^verbatim>\<open>None\<close> and every other falsy argument (the empty string,
  empty \<^verbatim>\<open>bytes\<close>, 0, \<^verbatim>\<open>False\<close>, the empty list) is admitted by line 56: the call returns
  \<^verbatim>\<open>False\<close>, and the hash set and every deque only lose what the cleanup removed. A
  \<^verbatim>\<open>str\<close> argument always gets a boolean. An integer other than 0 is not treated as
  empty: the call raises \<^verbatim>\<open>AttributeError\<close>. All three need a bound on the deque that is
  not negative, or the first access of a new user raises \<^verbatim>\<open>ValueError\<close>. The other public
  methods have no statement that raises and are total functions of the model.
\<close>

theorem falsy_input_admitted:
  assumes "0 \<le> max_messages_per_user cfg"
  shows "(\<not> truthy v \<longrightarrow>
            fst (is_duplicate_any R cfg u t v s) = Inr False \<and>
            message_hashes (snd (is_duplicate_any R cfg u t v s)) \<subseteq> message_hashes s \<and>
            (\<forall>k. \<exists>n. deque_of (user_messages (snd (is_duplicate_any R cfg u t v s))) k =
                       drop n (deque_of (user_messages s) k))) \<and>
         (\<exists>b. fst (is_duplicate_any R cfg u t (PyStr msg) s) = Inr b) \<and>
         (n \<noteq> 0 \<longrightarrow> fst (is_duplicate_any R cfg u t (PyInt n) s) = Inl AttributeError)"
proof -
  from cleanup_old_messages_total[OF assms] obtain s2 where
    c: "cleanup_old_messages cfg u t (s\<lparr>total_processed := total_processed s + 1\<rparr>) = Inr s2"
    by blast
  have "\<not> truthy v \<Longrightarrow> is_duplicate_any R cfg u t v s = (Inr False, s2)"
    using is_duplicate_any_falsy c by blast
  moreover from cleanup_old_messages_shrinks[OF c] have
    "message_hashes s2 \<subseteq> message_hashes s \<and>
     (\<forall>k. \<exists>n. deque_of (user_messages s2) k = drop n (deque_of (user_messages s) k))"
    by simp
  moreover have "n \<noteq> 0 \<Longrightarrow> fst (is_duplicate_any R cfg u t (PyInt n) s) = Inl AttributeError"
    using is_duplicate_any_int[OF _ c] by simp
  ultimately show ?thesis using is_duplicate_str_total[OF assms] by simp
qed

theorem falsy_input_admitted_witness:
  "0 \<le> max_messages_per_user cfg_test \<and> \<not> truthy PyNone \<and>
   fst (is_duplicate_any cpython_basic cfg_test 1 0 PyNone init_state) = Inr False \<and>
   message_hashes (snd (is_duplicate_any cpython_basic cfg_test 1 0 PyNone init_state)) \<subseteq>
     message_hashes init_state \<and>
   (\<exists>b. fst (is_duplicate_any cpython_basic cfg_test 1 0 (PyStr privet) init_state) = Inr b) \<and>
   fst (is_duplicate_any cpython_basic cfg_test 1 0 (PyInt 7) init_state) = Inl AttributeError"
proof -
  have m: "0 \<le> max_messages_per_user cfg_test" by (simp add: cfg_test_def)
  have f: "\<not> truthy PyNone" by simp
  have i: "(7::int) \<noteq> 0" by simp
  from falsy_input_admitted[OF m, where v = PyNone and R = cpython_basic and u = 1 and t = 0
      and s = init_state and msg = privet and n = 7] m f i
  show ?thesis by blast
qed

text \<open>
  The claim fails for the integer 5, which reaches \<^verbatim>\<open>text.lower()\<close> on line 60.
\<close>

theorem non_string_raises_counterexample:
  "fst (is_duplicate_any cpython_basic cfg_test 1 0 (PyInt 5) init_state) = Inl AttributeError"
  by (simp add: cleanup_old_messages_def user_deque_def init_state_def cfg_test_def)

text \<open>
  Claim C8 (the threshold is inclusive): the threshold is 0.8, the cleanup has run, the
  deque of the user is \<open>q\<close>, and the hash of the new message is not in the hash set.
  If the similarity with some retained entry is exactly 0.8 the message is suppressed;
  if the similarity with every retained entry is below 0.8, as 0.79 is, it is admitted.
\<close>

theorem threshold_inclusive:
  assumes "similarity_threshold cfg = 4 / 5"
    and "cleanup_old_messages cfg u t (s\<lparr>total_processed := total_processed s + 1\<rparr>) = Inr s2"
    and "fmlookup (user_messages s2) u = Some q"
    and "md5_hexdigest R (normalize_text R text) \<notin> message_hashes s2"
  shows "((\<exists>e\<in>set q. calculate_similarity R text (raw_text e) = 4 / 5) \<longrightarrow>
            fst (is_duplicate R cfg u t text s) = Inr True) \<and>
         ((\<forall>e\<in>set q. calculate_similarity R text (raw_text e) < 4 / 5) \<longrightarrow>
            fst (is_duplicate R cfg u t text s) = Inr False)"
proof (cases "normalize_text R text = []")
  case True
  have "fst (is_duplicate R cfg u t text s) = Inr False"
    using is_duplicate_after_cleanup[OF assms(2,3), of R "text"] True by simp
  moreover have "calculate_similarity R text (raw_text e) \<noteq> 4 / 5" for e
    using similarity_of_empty_normal[OF True, of "raw_text e"] by auto
  ultimately show ?thesis by blast
next
  case False
  have d: "fst (is_duplicate R cfg u t text s) =
      Inr (\<exists>e\<in>set q. 4 / 5 \<le> calculate_similarity R text (raw_text e))"
    using threshold_decides[OF assms(2,3) False assms(4)] assms(1) by simp
  have "(\<exists>e\<in>set q. calculate_similarity R text (raw_text e) = 4 / 5) \<Longrightarrow>
      (\<exists>e\<in>set q. 4 / 5 \<le> calculate_similarity R text (raw_text e))"
    by (metis order_refl)
  moreover have "(\<forall>e\<in>set q. calculate_similarity R text (raw_text e) < 4 / 5) \<Longrightarrow>
      \<not> (\<exists>e\<in>set q. 4 / 5 \<le> calculate_similarity R text (raw_text e))"
    by (meson not_le)
  ultimately show ?thesis unfolding d by blast
qed

text \<open>
  Four common words of five give exactly 0.8 and the second message is suppressed; 79
  common words of 100 give 0.79 and it is admitted.
\<close>

theorem threshold_inclusive_witness:
  "calculate_similarity cpython_basic words_abcde words_abcd = 4 / 5 \<and>
   fst (is_duplicate cpython_basic cfg_test 1 1 words_abcde
          (snd (is_duplicate cpython_basic cfg_test 1 0 words_abcd init_state))) = Inr True \<and>
   calculate_similarity cpython_basic words_00_99 words_00_78 = 79 / 100 \<and>
   fst (is_duplicate cpython_basic cfg_test 1 1 words_00_99
          (snd (is_duplicate cpython_basic cfg_test 1 0 words_00_78 init_state))) = Inr False"
proof -
  have thr: "similarity_threshold cfg_test = 4 / 5" by (simp add: cfg_test_def)
  have n4: "normalize_text cpython_basic words_abcd \<noteq> []"
    by (simp only: normalize_words_abcd) (simp add: words_abcd_def)
  have n5: "normalize_text cpython_basic words_abcde \<noteq> []"
    by (simp only: normalize_words_abcde) (simp add: words_abcde_def)
  have h5: "md5_hexdigest_utf8 (normalize_text cpython_basic words_abcde) \<noteq>
      md5_hexdigest_utf8 (normalize_text cpython_basic words_abcd)"
    by (simp only: normalize_words_abcd normalize_words_abcde)
      (simp add: words_abcd_def words_abcde_def md5_abcd md5_abcde)
  from second_call_threshold[OF n4 n5 h5] obtain s2 e where
    c: "cleanup_old_messages cfg_test 1 1
            ((snd (is_duplicate cpython_basic cfg_test 1 0 words_abcd init_state))
               \<lparr>total_processed :=
                  total_processed (snd (is_duplicate cpython_basic cfg_test 1 0 words_abcd init_state)) + 1\<rparr>)
            = Inr s2"
    and l: "fmlookup (user_messages s2) 1 = Some [e]" and e: "raw_text e = words_abcd"
    and h: "md5_hexdigest cpython_basic (normalize_text cpython_basic words_abcde) \<notin> message_hashes s2"
    by blast
  have a: "fst (is_duplicate cpython_basic cfg_test 1 1 words_abcde
          (snd (is_duplicate cpython_basic cfg_test 1 0 words_abcd init_state))) = Inr True"
    using threshold_inclusive[OF thr c l h] e similarity_abcde_abcd by simp
  have n79: "normalize_text cpython_basic words_00_78 \<noteq> []"
    by (simp only: normalize_words_00_78) (simp add: words_00_78_def)
  have n100: "normalize_text cpython_basic words_00_99 \<noteq> []"
    by (simp only: normalize_words_00_99) (simp add: words_00_99_def)
  have h100: "md5_hexdigest_utf8 (normalize_text cpython_basic words_00_99) \<noteq>
      md5_hexdigest_utf8 (normalize_text cpython_basic words_00_78)"
    by (simp only: normalize_words_00_78 normalize_words_00_99)
      (simp add: words_00_78_def words_00_99_def md5_00_78 md5_00_99)
  from second_call_threshold[OF n79 n100 h100] obtain s2' e' where
    c': "cleanup_old_messages cfg_test 1 1
            ((snd (is_duplicate cpython_basic cfg_test 1 0 words_00_78 init_state))
               \<lparr>total_processed :=
                  total_processed (snd (is_duplicate cpython_basic cfg_test 1 0 words_00_78 init_state)) + 1\<rparr>)
            = Inr s2'"
    and l': "fmlookup (user_messages s2') 1 = Some [e']" and e': "raw_text e' = words_00_78"
    and h': "md5_hexdigest cpython_basic (normalize_text cpython_basic words_00_99) \<notin> message_hashes s2'"
    by blast
  have b: "fst (is_duplicate cpython_basic cfg_test 1 1 words_00_99
          (snd (is_duplicate cpython_basic cfg_test 1 0 words_00_78 init_state))) = Inr False"
    using threshold_inclusive[OF thr c' l' h'] e' similarity_00_99_00_78 by simp
  show ?thesis using a b similarity_abcde_abcd similarity_00_99_00_78 by simp
qed

text \<open>
  Claim C9 (\<^verbatim>\<open>get_user_recent_messages\<close>): for a positive limit the result is the last
  \<open>limit\<close> entries, oldest first (\<open>recent_positive_limit\<close>), and an unknown user gets
  the empty list. For the limit 0 the slice \<^verbatim>\<open>[-0:]\<close> is the whole list: with five
  retained entries the call returns five, not at most zero.
\<close>

theorem recent_limit_zero_returns_all:
  "length (get_user_recent_messages 1 0
      (snd (run_calls cpython_basic cfg_test six_calls init_state))) = 5"
  by (simp add: run_six get_user_recent_messages_def py_slice_from_def)

text \<open>
  Claim C10 (no two retained entries carry the same hash): in every reachable state two
  positions of the deques that carry the same hash are the same position of the same
  user; and clearing the cache of one user leaves the entries of every other user in
  place with their hashes still in the hash set.
\<close>

theorem retained_hashes_unique:
  assumes "reachable R cfg s"
  shows "(\<forall>u1 q1 u2 q2 i j.
            fmlookup (user_messages s) u1 = Some q1 \<and> fmlookup (user_messages s) u2 = Some q2 \<and>
            i < length q1 \<and> j < length q2 \<and> content_hash (q1 ! i) = content_hash (q2 ! j)
            \<longrightarrow> u1 = u2 \<and> i = j) \<and>
         (\<forall>u v q e.
            v \<noteq> u \<and> fmlookup (user_messages s) v = Some q \<and> e \<in> set q
            \<longrightarrow> fmlookup (user_messages (clear_user_cache u s)) v = Some q \<and>
                content_hash e \<in> message_hashes (clear_user_cache u s))"
proof -
  from reachable_inv[OF assms] have ix: "hashes_indexed s" and di: "hashes_distinct s"
    and dj: "hashes_disjoint s" by (simp_all add: filter_inv_def)
  have one: "u1 = u2 \<and> i = j"
    if h: "fmlookup (user_messages s) u1 = Some q1" "fmlookup (user_messages s) u2 = Some q2"
      "i < length q1" "j < length q2" "content_hash (q1 ! i) = content_hash (q2 ! j)"
    for u1 q1 u2 q2 i j
  proof -
    have "u1 = u2"
    proof (rule ccontr)
      assume "u1 \<noteq> u2"
      then have "content_hash ` set q1 \<inter> content_hash ` set q2 = {}"
        using dj h(1,2) unfolding hashes_disjoint_def by blast
      moreover have "content_hash (q1 ! i) \<in> content_hash ` set q1" using h(3) by simp
      moreover have "content_hash (q2 ! j) \<in> content_hash ` set q2" using h(4) by simp
      ultimately show False using h(5) by auto
    qed
    then have "q1 = q2" using h(1,2) by simp
    moreover have "distinct (map content_hash q1)"
      using di h(1) by (auto simp: hashes_distinct_def)
    ultimately have "i = j"
      using h(3,4,5) by (auto simp: distinct_conv_nth)
    with \<open>u1 = u2\<close> show ?thesis by simp
  qed
  have two: "fmlookup (user_messages (clear_user_cache u s)) v = Some q \<and>
      content_hash e \<in> message_hashes (clear_user_cache u s)"
    if h: "v \<noteq> u" "fmlookup (user_messages s) v = Some q" "e \<in> set q" for u v q e
  proof -
    have l: "fmlookup (user_messages (clear_user_cache u s)) v = Some q"
      using h(1,2) by (simp add: clear_user_cache_def split: option.splits)
    have "hashes_indexed (clear_user_cache u s)"
      using clear_user_cache_inv[OF reachable_inv[OF assms], of u] by (simp add: filter_inv_def)
    then show ?thesis using l h(3) by (auto simp: hashes_indexed_def)
  qed
  show ?thesis using one two by blast
qed

theorem retained_hashes_unique_witness:
  "reachable cpython_basic cfg_test
     (snd (run_calls cpython_basic cfg_test [(1, 0, privet), (2, 1, kak_dela)] init_state)) \<and>
   content_hash (deque_of (user_messages
     (snd (run_calls cpython_basic cfg_test [(1, 0, privet), (2, 1, kak_dela)] init_state))) 1 ! 0) \<noteq>
   content_hash (deque_of (user_messages
     (snd (run_calls cpython_basic cfg_test [(1, 0, privet), (2, 1, kak_dela)] init_state))) 2 ! 0) \<and>
   ''1a5ec1cd3e64f2dd402d0e82bfe6a9ab'' \<in> message_hashes (clear_user_cache 1
     (snd (run_calls cpython_basic cfg_test [(1, 0, privet), (2, 1, kak_dela)] init_state)))"
proof -
  define s where
    "s = snd (run_calls cpython_basic cfg_test [(1, 0, privet), (2, 1, kak_dela)] init_state)"
  define e1 where
    "e1 = \<lparr>timestamp = 0, content_hash = ''608333adc72f545078ede3aad71bfe74'',
            raw_text = privet\<rparr>"
  define e2 where
    "e2 = \<lparr>timestamp = 1, content_hash = ''1a5ec1cd3e64f2dd402d0e82bfe6a9ab'',
            raw_text = kak_dela\<rparr>"
  have r: "reachable cpython_basic cfg_test s"
    unfolding s_def by (rule run_calls_reachable[OF reach_init])
  have l1: "fmlookup (user_messages s) 1 = Some [e1]"
    unfolding s_def run_two_users e1_def by simp
  have l2: "fmlookup (user_messages s) 2 = Some [e2]"
    unfolding s_def run_two_users e2_def by simp
  from retained_hashes_unique[OF r] have
    u1: "\<forall>u1 q1 u2 q2 i j.
            fmlookup (user_messages s) u1 = Some q1 \<and> fmlookup (user_messages s) u2 = Some q2 \<and>
            i < length q1 \<and> j < length q2 \<and> content_hash (q1 ! i) = content_hash (q2 ! j)
            \<longrightarrow> u1 = u2 \<and> i = j"
    and u2: "\<forall>u v q e.
            v \<noteq> u \<and> fmlookup (user_messages s) v = Some q \<and> e \<in> set q
            \<longrightarrow> fmlookup (user_messages (clear_user_cache u s)) v = Some q \<and>
                content_hash e \<in> message_hashes (clear_user_cache u s)"
    by blast+
  have a: "content_hash ([e1] ! 0) \<noteq> content_hash ([e2] ! 0)"
  proof
    assume eq: "content_hash ([e1] ! 0) = content_hash ([e2] ! 0)"
    have "fmlookup (user_messages s) 1 = Some [e1] \<and> fmlookup (user_messages s) 2 = Some [e2] \<and>
        0 < length [e1] \<and> 0 < length [e2] \<and> content_hash ([e1] ! 0) = content_hash ([e2] ! 0)"
      using l1 l2 eq by simp
    with u1 have "(1::int) = 2 \<and> (0::nat) = 0" by blast
    then show False by simp
  qed
  have "(2::int) \<noteq> 1 \<and> fmlookup (user_messages s) 2 = Some [e2] \<and> e2 \<in> set [e2]"
    using l2 by simp
  with u2 have "content_hash e2 \<in> message_hashes (clear_user_cache 1 s)" by blast
  then have b: "''1a5ec1cd3e64f2dd402d0e82bfe6a9ab'' \<in> message_hashes (clear_user_cache 1 s)"
    by (simp add: e2_def)
  have "deque_of (user_messages s) 1 = [e1]" "deque_of (user_messages s) 2 = [e2]"
    using l1 l2 by (simp_all add: deque_of_def)
  with r a b show ?thesis unfolding s_def by simp
qed

end
